theory Spec2Isabelle
  imports Complex_Main "HOL-Library.Word"
begin

section \<open>JavaScript values used by the CosyVoice engine\<close>

text \<open>
  A JavaScript \<^verbatim>\<open>number\<close> is \<open>NaN\<close>, an infinity (\<open>Inf True\<close> is \<open>+Infinity\<close>) or a
  finite double, given by its value as a real. Comparing doubles and \<^verbatim>\<open>Math.round\<close> are
  exact; a product is rounded to the nearest double, ties to even (IEEE 754 binary64).
  The sign of zero is not kept.
\<close>

datatype jsnum = NaN | Inf bool | Fin real

text \<open>
  The exponent of the binade of a magnitude \<open>a\<close>: the greatest \<open>k\<close> from -1021 to 1023 with
  \<open>2 powi k \<le> a\<close>, and -1022 (the exponent of the subnormal numbers) when there is none.
\<close>

fun binadeFrom :: "nat \<Rightarrow> real \<Rightarrow> int" where
  "binadeFrom 0 a = - 1022"
| "binadeFrom (Suc n) a =
     (if 2 powi (int (Suc n) - 1022) \<le> a then int (Suc n) - 1022 else binadeFrom n a)"

definition binade :: "real \<Rightarrow> int" where
  "binade x = binadeFrom 2045 \<bar>x\<bar>"

text \<open>The distance between neighbouring doubles around \<open>x\<close>: 52 fraction bits.\<close>

definition ulp :: "real \<Rightarrow> real" where
  "ulp x = 2 powi (binade x - 52)"

definition roundTiesToEven :: "real \<Rightarrow> int" where
  "roundTiesToEven y =
     (let f = \<lfloor>y\<rfloor>; d = y - of_int f
      in if d < 1 / 2 then f else if 1 / 2 < d then f + 1 else if even f then f else f + 1)"

definition nearestDouble :: "real \<Rightarrow> real" where
  "nearestDouble x = of_int (roundTiesToEven (x / ulp x)) * ulp x"

text \<open>The double an exact result is rounded to; it overflows to an infinity.\<close>

definition toDouble :: "real \<Rightarrow> jsnum" where
  "toDouble x = (let r = nearestDouble x in if 2 ^ 1024 \<le> \<bar>r\<bar> then Inf (0 < x) else Fin r)"

fun jsMul :: "jsnum \<Rightarrow> jsnum \<Rightarrow> jsnum" where
  "jsMul (Fin a) (Fin b) = toDouble (a * b)"
| "jsMul (Fin a) (Inf q) = (if a = 0 then NaN else Inf (q = (0 < a)))"
| "jsMul (Inf p) (Fin b) = (if b = 0 then NaN else Inf (p = (0 < b)))"
| "jsMul (Inf p) (Inf q) = Inf (p = q)"
| "jsMul NaN _ = NaN"
| "jsMul _ NaN = NaN"

text \<open>\<^verbatim>\<open>Math.max\<close> and \<^verbatim>\<open>Math.min\<close>: \<open>NaN\<close> as soon as an argument is \<open>NaN\<close>.\<close>

fun jsMax :: "jsnum \<Rightarrow> jsnum \<Rightarrow> jsnum" where
  "jsMax (Fin a) (Fin b) = Fin (max a b)"
| "jsMax (Fin a) (Inf q) = (if q then Inf True else Fin a)"
| "jsMax (Inf p) (Fin b) = (if p then Inf True else Fin b)"
| "jsMax (Inf p) (Inf q) = Inf (p \<or> q)"
| "jsMax NaN _ = NaN"
| "jsMax _ NaN = NaN"

fun jsMin :: "jsnum \<Rightarrow> jsnum \<Rightarrow> jsnum" where
  "jsMin (Fin a) (Fin b) = Fin (min a b)"
| "jsMin (Fin a) (Inf q) = (if q then Fin a else Inf False)"
| "jsMin (Inf p) (Fin b) = (if p then Fin b else Inf False)"
| "jsMin (Inf p) (Inf q) = Inf (p \<and> q)"
| "jsMin NaN _ = NaN"
| "jsMin _ NaN = NaN"

text \<open>
  \<^verbatim>\<open>Math.round x\<close> is the integer nearest to \<open>x\<close>, the greater one on a tie: the exact
  \<open>floor (x + 1/2)\<close>, which is what \<^const>\<open>round\<close> computes.
\<close>

fun jsRound :: "jsnum \<Rightarrow> jsnum" where
  "jsRound (Fin a) = Fin (of_int (round a))"
| "jsRound x = x"

fun falsyNum :: "jsnum \<Rightarrow> bool" where
  "falsyNum NaN = True"
| "falsyNum (Fin a) = (a = 0)"
| "falsyNum (Inf p) = False"

text \<open>\<^verbatim>\<open>x || d\<close> on numbers.\<close>

definition jsOrNum :: "jsnum \<Rightarrow> jsnum \<Rightarrow> jsnum" where
  "jsOrNum x d = (if falsyNum x then d else x)"

text \<open>
  Values read from or written to JSON text. An object keeps its members in textual order;
  \<^verbatim>\<open>undefined\<close> is the \<open>None\<close> of \<open>json option\<close>.
\<close>

datatype json =
    JNull
  | JBool bool
  | JNum real
  | JStr string
  | JArr "json list"
  | JObj "(string \<times> json) list"

text \<open>\<^verbatim>\<open>JSON.stringify\<close> writes a number that is not finite as \<^verbatim>\<open>null\<close>.\<close>

fun numJson :: "jsnum \<Rightarrow> json" where
  "numJson (Fin a) = JNum a"
| "numJson x = JNull"

text \<open>
  Reading one of the members \<^verbatim>\<open>header\<close>, \<^verbatim>\<open>event\<close>, \<^verbatim>\<open>task_id\<close>,
  \<^verbatim>\<open>error_code\<close>, \<^verbatim>\<open>error_message\<close> of a value that is neither \<^verbatim>\<open>null\<close> nor
  \<^verbatim>\<open>undefined\<close>: an object gives its member (the last one of that name, as
  \<^verbatim>\<open>JSON.parse\<close> keeps it), anything else has no such member.
\<close>

fun field :: "json \<Rightarrow> string \<Rightarrow> json option" where
  "field (JObj kvs) k = map_of (rev kvs) k"
| "field v k = None"

datatype exn = SyntaxError | TypeError

text \<open>A member access on \<^verbatim>\<open>undefined\<close> or \<^verbatim>\<open>null\<close> throws.\<close>

fun deref :: "json option \<Rightarrow> exn + json" where
  "deref None = Inl TypeError"
| "deref (Some JNull) = Inl TypeError"
| "deref (Some v) = Inr v"

fun truthy :: "json option \<Rightarrow> bool" where
  "truthy None = False"
| "truthy (Some JNull) = False"
| "truthy (Some (JBool b)) = b"
| "truthy (Some (JNum a)) = (a \<noteq> 0)"
| "truthy (Some (JStr s)) = (s \<noteq> [])"
| "truthy (Some v) = True"

text \<open>\<^verbatim>\<open>x || d\<close> where \<open>d\<close> is a string literal.\<close>

definition jsOr :: "json option \<Rightarrow> string \<Rightarrow> json" where
  "jsOr x d = (case x of None \<Rightarrow> JStr d | Some v \<Rightarrow> if truthy x then v else JStr d)"

text \<open>
  Converting a value to a string, as a template literal and \<^verbatim>\<open>new Error\<close> do. How a number
  is written is left to the parameter \<open>numberToString\<close>. An array joins its elements with
  commas, \<^verbatim>\<open>null\<close> elements as empty strings. An object parsed from JSON is written
  \<^verbatim>\<open>[object Object]\<close>, unless it has a member \<^verbatim>\<open>toString\<close> of its own: that member is not
  a function, the inherited \<^verbatim>\<open>valueOf\<close> returns the object, and the conversion throws a
  type error.
\<close>

fun joinWith :: "string \<Rightarrow> string list \<Rightarrow> string" where
  "joinWith sep [] = []"
| "joinWith sep [s] = s"
| "joinWith sep (s # t # ss) = s @ sep @ joinWith sep (t # ss)"

fun valueToString :: "(real \<Rightarrow> string) \<Rightarrow> json \<Rightarrow> exn + string"
  and elementsToString :: "(real \<Rightarrow> string) \<Rightarrow> json list \<Rightarrow> exn + string list" where
  "valueToString numberToString JNull = Inr ''null''"
| "valueToString numberToString (JBool b) = Inr (if b then ''true'' else ''false'')"
| "valueToString numberToString (JNum a) = Inr (numberToString a)"
| "valueToString numberToString (JStr s) = Inr s"
| "valueToString numberToString (JArr xs) =
     (case elementsToString numberToString xs of
        Inl e \<Rightarrow> Inl e
      | Inr ss \<Rightarrow> Inr (joinWith '','' ss))"
| "valueToString numberToString (JObj kvs) =
     (if map_of kvs ''toString'' \<noteq> None then Inl TypeError else Inr ''[object Object]'')"
| "elementsToString numberToString [] = Inr []"
| "elementsToString numberToString (x # xs) =
     (case (if x = JNull then Inr [] else valueToString numberToString x) of
        Inl e \<Rightarrow> Inl e
      | Inr s \<Rightarrow>
          (case elementsToString numberToString xs of
             Inl e \<Rightarrow> Inl e
           | Inr ss \<Rightarrow> Inr (s # ss)))"

fun toString :: "(real \<Rightarrow> string) \<Rightarrow> json option \<Rightarrow> exn + string" where
  "toString numberToString None = Inr ''undefined''"
| "toString numberToString (Some v) = valueToString numberToString v"

text \<open>An error object, given by its message.\<close>

datatype js_error = Error string

text \<open>\<^verbatim>\<open>s.replace(p, r)\<close> with a string pattern replaces the first occurrence only.\<close>

fun replace :: "string \<Rightarrow> string \<Rightarrow> string \<Rightarrow> string" where
  "replace [] p r = (if p = [] then r else [])"
| "replace (c # cs) p r =
     (if take (length p) (c # cs) = p then r @ drop (length p) (c # cs)
      else c # replace cs p r)"

text \<open>\<^verbatim>\<open>s.replace(/-/g, '')\<close> removes every hyphen.\<close>

definition removeHyphens :: "string \<Rightarrow> string" where
  "removeHyphens s = filter (\<lambda>c. c \<noteq> CHR ''-'') s"

section \<open>Options and parameter mapping\<close>

type_synonym buffer = "8 word list"

record TtsOptions =
  voice :: "string option"
  format :: "string option"
  speed :: "jsnum option"
  volume :: "jsnum option"
  pitch :: "jsnum option"
  stream :: "bool option"
  outputType :: "string option"
  "output" :: "string option"

text \<open>A destructuring default applies when the member is \<^verbatim>\<open>undefined\<close>.\<close>

fun orDefault :: "'a option \<Rightarrow> 'a \<Rightarrow> 'a" where
  "orDefault None d = d"
| "orDefault (Some v) d = v"

definition cosySpeed :: "TtsOptions \<Rightarrow> jsnum" where
  "cosySpeed options = jsMax (Fin 0.5) (jsMin (Fin 2.0) (orDefault (speed options) (Fin 1.0)))"

definition cosyVolume :: "TtsOptions \<Rightarrow> jsnum" where
  "cosyVolume options =
     jsOrNum
       (jsRound (jsMax (Fin 0) (jsMin (Fin 100)
          (jsMul (orDefault (volume options) (Fin 1.0)) (Fin 100)))))
       (Fin 50)"

definition cosyPitch :: jsnum where
  "cosyPitch = Fin 1.0"

definition streamFlag :: "TtsOptions \<Rightarrow> bool" where
  "streamFlag options = orDefault (stream options) False"

text \<open>The condition \<^verbatim>\<open>outputType === 'file' && output\<close> under which a file is opened.\<close>

definition opensFile :: "TtsOptions \<Rightarrow> bool" where
  "opensFile options =
     (outputType options = Some ''file'' \<and>
      (case output options of None \<Rightarrow> False | Some p \<Rightarrow> p \<noteq> []))"

section \<open>The session: what one call of \<open>synthesize\<close> owns\<close>

text \<open>
  The web socket, the pass-through stream, the file write stream and the logger are
  library objects. Each is modelled by the calls the engine makes on it, in order.
\<close>

datatype ws_call = Send json | Close

datatype stream_call = Write buffer | End | EmitError js_error | Destroy js_error

datatype log_entry =
    InfoSendingRunTask json
  | InfoReceivedEvent string string
  | InfoSendingContinueTask json
  | InfoSendingFinishTask json
  | InfoResultGenerated
  | InfoTaskFinished
  | ErrorTaskFailed string string
  | ErrorParsing exn
  | ErrorWebSocket js_error

text \<open>
  The promise returned by \<open>synthesize\<close>. It resolves to a buffer or to the session's
  \<open>outputStream\<close>; once settled, later calls of \<^verbatim>\<open>resolve\<close> and \<^verbatim>\<open>reject\<close> have no effect.
\<close>

datatype resolution = ResBuffer buffer | ResOutputStream

datatype promise = Pending | Resolved resolution | Rejected js_error

fun resolve :: "resolution \<Rightarrow> promise \<Rightarrow> promise" where
  "resolve v Pending = Resolved v"
| "resolve v p = p"

fun reject :: "js_error \<Rightarrow> promise \<Rightarrow> promise" where
  "reject e Pending = Rejected e"
| "reject e p = p"

text \<open>
  \<open>fileStream\<close> is \<open>None\<close> while the variable is \<^verbatim>\<open>undefined\<close>; otherwise it holds the path
  given to \<^verbatim>\<open>createWriteStream\<close> and the calls made on the write stream.
\<close>

record session =
  ws :: "ws_call list"
  audioChunks :: "buffer list"
  outputStream :: "stream_call list"
  fileStream :: "(string \<times> stream_call list) option"
  promise :: promise
  logger :: "log_entry list"

definition wsCall :: "ws_call \<Rightarrow> session \<Rightarrow> session" where
  "wsCall c s = s\<lparr>ws := ws s @ [c]\<rparr>"

definition outputStreamCall :: "stream_call \<Rightarrow> session \<Rightarrow> session" where
  "outputStreamCall c s = s\<lparr>outputStream := outputStream s @ [c]\<rparr>"

definition fileStreamCall :: "stream_call \<Rightarrow> session \<Rightarrow> session" where
  "fileStreamCall c s =
     (case fileStream s of
        None \<Rightarrow> s
      | Some (path, calls) \<Rightarrow> s\<lparr>fileStream := Some (path, calls @ [c])\<rparr>)"

definition logLine :: "log_entry \<Rightarrow> session \<Rightarrow> session" where
  "logLine l s = s\<lparr>logger := logger s @ [l]\<rparr>"

definition doResolve :: "resolution \<Rightarrow> session \<Rightarrow> session" where
  "doResolve v s = s\<lparr>promise := resolve v (promise s)\<rparr>"

definition doReject :: "js_error \<Rightarrow> session \<Rightarrow> session" where
  "doReject e s = s\<lparr>promise := reject e (promise s)\<rparr>"

section \<open>The commands sent to the service\<close>

definition cmdHeader :: "string \<Rightarrow> string \<Rightarrow> json" where
  "cmdHeader action taskId =
     JObj [(''action'', JStr action), (''task_id'', JStr taskId), (''streaming'', JStr ''duplex'')]"

definition runTaskCmd :: "string \<Rightarrow> TtsOptions \<Rightarrow> json" where
  "runTaskCmd taskId options =
     JObj [
       (''header'', cmdHeader ''run-task'' taskId),
       (''payload'', JObj [
          (''task_group'', JStr ''audio''),
          (''task'', JStr ''tts''),
          (''function'', JStr ''SpeechSynthesizer''),
          (''model'', JStr ''cosyvoice-v3-plus''),
          (''parameters'', JObj [
             (''text_type'', JStr ''PlainText''),
             (''voice'', JStr (replace (orDefault (voice options) ''longwan'') ''zh-CN-'' [])),
             (''format'', JStr (if orDefault (format options) ''mp3'' = ''mp3'' then ''mp3'' else ''wav'')),
             (''sample_rate'', JNum 22050),
             (''volume'', numJson (cosyVolume options)),
             (''rate'', numJson (cosySpeed options)),
             (''pitch'', numJson cosyPitch)]),
          (''input'', JObj [])])]"

definition continueTaskCmd :: "string \<Rightarrow> string \<Rightarrow> json" where
  "continueTaskCmd taskId text =
     JObj [
       (''header'', cmdHeader ''continue-task'' taskId),
       (''payload'', JObj [(''input'', JObj [(''text'', JStr text)])])]"

definition finishTaskCmd :: "string \<Rightarrow> json" where
  "finishTaskCmd taskId =
     JObj [
       (''header'', cmdHeader ''finish-task'' taskId),
       (''payload'', JObj [(''input'', JObj [])])]"

section \<open>The handlers registered by \<open>synthesize\<close>\<close>

text \<open>
  What the transport delivers. A text frame is given by what \<^verbatim>\<open>JSON.parse\<close> makes of its
  payload: \<open>None\<close> when it throws a syntax error. Calls on the library objects (the web
  socket, the streams, the logger, the promise) are taken to return normally; in
  particular \<^verbatim>\<open>emit('error', ...)\<close> is taken to find a listener.
\<close>

datatype frame = Binary buffer | Text "json option"

datatype event = Open | Message frame | WsError js_error

definition onOpen :: "string \<Rightarrow> TtsOptions \<Rightarrow> session \<Rightarrow> session" where
  "onOpen taskId options s =
     (let cmd = runTaskCmd taskId options;
          s1 = logLine (InfoSendingRunTask cmd) s
      in wsCall (Send cmd) s1)"

definition onBinary :: "TtsOptions \<Rightarrow> buffer \<Rightarrow> session \<Rightarrow> session" where
  "onBinary options buffer s =
     (if fileStream s \<noteq> None then fileStreamCall (Write buffer) s
      else if streamFlag options then outputStreamCall (Write buffer) s
      else s\<lparr>audioChunks := audioChunks s @ [buffer]\<rparr>)"

definition taskStarted :: "string \<Rightarrow> string \<Rightarrow> session \<Rightarrow> session" where
  "taskStarted text taskId s =
     (let continueCmd = continueTaskCmd taskId text;
          s1 = logLine (InfoSendingContinueTask continueCmd) s;
          s2 = wsCall (Send continueCmd) s1;
          finishCmd = finishTaskCmd taskId;
          s3 = logLine (InfoSendingFinishTask finishCmd) s2
      in wsCall (Send finishCmd) s3)"

definition taskFinished :: "TtsOptions \<Rightarrow> session \<Rightarrow> session" where
  "taskFinished options s =
     (let s1 = logLine InfoTaskFinished s;
          s2 = wsCall Close s1
      in if fileStream s2 \<noteq> None then doResolve (ResBuffer []) (fileStreamCall End s2)
         else if streamFlag options then outputStreamCall End s2
         else doResolve (ResBuffer (concat (audioChunks s2))) s2)"

text \<open>
  How the body of the \<^verbatim>\<open>try\<close> block ends: normally, or by an exception thrown in the
  session state reached so far.
\<close>

datatype completion = Normal session | Throw exn session

text \<open>
  The task-failed branch. The log line converts \<^verbatim>\<open>msg.header.error_code\<close> and the message
  to strings after \<^verbatim>\<open>ws.close()\<close> and before the error is made; either conversion may throw.
\<close>

definition taskFailed ::
  "(real \<Rightarrow> string) \<Rightarrow> TtsOptions \<Rightarrow> json \<Rightarrow> session \<Rightarrow> completion" where
  "taskFailed numberToString options hdr s =
     (let s1 = wsCall Close s;
          errorMsg = jsOr (field hdr ''error_message'') ''CosyVoice task failed''
      in case toString numberToString (field hdr ''error_code'') of
           Inl e \<Rightarrow> Throw e s1
         | Inr code \<Rightarrow>
             (case toString numberToString (Some errorMsg) of
                Inl e \<Rightarrow> Throw e s1
              | Inr message \<Rightarrow>
                  (let s2 = logLine (ErrorTaskFailed code message) s1;
                       error = Error message
                   in Normal
                       (if fileStream s2 \<noteq> None
                        then doReject error (fileStreamCall (Destroy error) s2)
                        else if streamFlag options then outputStreamCall (EmitError error) s2
                        else doReject error s2))))"

text \<open>
  The body of the \<^verbatim>\<open>try\<close> block once \<^verbatim>\<open>msg.header\<close> is known to be neither \<^verbatim>\<open>null\<close>
  nor \<^verbatim>\<open>undefined\<close>. The log line comes first and converts \<^verbatim>\<open>msg.header.event\<close> and
  \<^verbatim>\<open>msg.header.task_id\<close> to strings; either conversion may throw.
\<close>

definition onControl ::
  "(real \<Rightarrow> string) \<Rightarrow> string \<Rightarrow> string \<Rightarrow> TtsOptions \<Rightarrow> json \<Rightarrow> session \<Rightarrow> completion"
  where
  "onControl numberToString text taskId options hdr s =
     (case toString numberToString (field hdr ''event'') of
        Inl e \<Rightarrow> Throw e s
      | Inr eventText \<Rightarrow>
          (case toString numberToString (field hdr ''task_id'') of
             Inl e \<Rightarrow> Throw e s
           | Inr taskIdText \<Rightarrow>
               (let ev = field hdr ''event'';
                    s1 = logLine (InfoReceivedEvent eventText taskIdText) s
                in if ev = Some (JStr ''task-started'') then Normal (taskStarted text taskId s1)
                   else if ev = Some (JStr ''result-generated'')
                   then Normal (logLine InfoResultGenerated s1)
                   else if ev = Some (JStr ''task-finished'') then Normal (taskFinished options s1)
                   else if ev = Some (JStr ''task-failed'')
                   then taskFailed numberToString options hdr s1
                   else Normal s1)))"

text \<open>
  The \<^verbatim>\<open>try\<close> block: \<^verbatim>\<open>JSON.parse\<close> may throw, and reading \<^verbatim>\<open>msg.header.event\<close> throws
  when \<open>msg\<close> or \<open>msg.header\<close> is \<^verbatim>\<open>null\<close> or \<^verbatim>\<open>undefined\<close>.
\<close>

definition tryBlock ::
  "(real \<Rightarrow> string) \<Rightarrow> string \<Rightarrow> string \<Rightarrow> TtsOptions \<Rightarrow> json option \<Rightarrow> session
     \<Rightarrow> completion" where
  "tryBlock numberToString text taskId options parsed s =
     (case parsed of
        None \<Rightarrow> Throw SyntaxError s
      | Some msg \<Rightarrow>
          (case deref (Some msg) of
             Inl e \<Rightarrow> Throw e s
           | Inr m \<Rightarrow>
               (case deref (field m ''header'') of
                  Inl e \<Rightarrow> Throw e s
                | Inr hdr \<Rightarrow> onControl numberToString text taskId options hdr s)))"

text \<open>Every exception ends in the \<^verbatim>\<open>catch\<close>, which logs it and goes on.\<close>

definition onText ::
  "(real \<Rightarrow> string) \<Rightarrow> string \<Rightarrow> string \<Rightarrow> TtsOptions \<Rightarrow> json option \<Rightarrow> session
     \<Rightarrow> session" where
  "onText numberToString text taskId options parsed s =
     (case tryBlock numberToString text taskId options parsed s of
        Normal s' \<Rightarrow> s'
      | Throw e s' \<Rightarrow> logLine (ErrorParsing e) s')"

definition onError :: "TtsOptions \<Rightarrow> js_error \<Rightarrow> session \<Rightarrow> session" where
  "onError options err s =
     (let s1 = logLine (ErrorWebSocket err) s
      in if fileStream s1 \<noteq> None then doReject err (fileStreamCall (Destroy err) s1)
         else if streamFlag options then outputStreamCall (EmitError err) s1
         else doReject err s1)"

fun handle ::
  "(real \<Rightarrow> string) \<Rightarrow> string \<Rightarrow> string \<Rightarrow> TtsOptions \<Rightarrow> session \<Rightarrow> event \<Rightarrow> session" where
  "handle numberToString text taskId options s Open = onOpen taskId options s"
| "handle numberToString text taskId options s (Message (Binary buffer)) =
     onBinary options buffer s"
| "handle numberToString text taskId options s (Message (Text parsed)) =
     onText numberToString text taskId options parsed s"
| "handle numberToString text taskId options s (WsError err) = onError options err s"

text \<open>Each handler runs to completion before the next event is delivered.\<close>

fun deliver ::
  "(real \<Rightarrow> string) \<Rightarrow> string \<Rightarrow> string \<Rightarrow> TtsOptions \<Rightarrow> session \<Rightarrow> event list \<Rightarrow> session"
  where
  "deliver numberToString text taskId options s [] = s"
| "deliver numberToString text taskId options s (e # es) =
     deliver numberToString text taskId options (handle numberToString text taskId options s e) es"

text \<open>
  The synchronous part of \<open>synthesize\<close>: the file is opened when asked for, the handlers
  are registered, and in stream mode without a file the promise is resolved at once.
\<close>

definition start :: "TtsOptions \<Rightarrow> session" where
  "start options =
     (let s0 = \<lparr>ws = [], audioChunks = [], outputStream = [],
                fileStream = (if opensFile options
                              then Some (orDefault (output options) [], []) else None),
                promise = Pending, logger = []\<rparr>
      in if streamFlag options \<and> fileStream s0 = None
         then doResolve ResOutputStream s0 else s0)"

text \<open>
  The session of \<open>synthesize text options\<close> after the transport has delivered \<open>events\<close>;
  \<open>uuid\<close> is the value \<^verbatim>\<open>randomUUID()\<close> returned for this call.
\<close>

definition synthesize ::
  "(real \<Rightarrow> string) \<Rightarrow> string \<Rightarrow> string \<Rightarrow> TtsOptions \<Rightarrow> event list \<Rightarrow> session" where
  "synthesize numberToString text uuid options events =
     deliver numberToString text (removeHyphens uuid) options (start options) events"

section \<open>Notions used to state the properties\<close>

text \<open>The member of a JSON value found by following a list of names.\<close>

fun jsonPath :: "json \<Rightarrow> string list \<Rightarrow> json option" where
  "jsonPath v [] = Some v"
| "jsonPath v (k # ks) = (case field v k of None \<Rightarrow> None | Some w \<Rightarrow> jsonPath w ks)"

text \<open>A request with no option set.\<close>

definition defaultOptions :: TtsOptions where
  "defaultOptions =
     \<lparr>voice = None, format = None, speed = None, volume = None, pitch = None,
      stream = None, outputType = None, output = None\<rparr>"

text \<open>
  The header a text frame carries: \<open>None\<close> when \<^verbatim>\<open>JSON.parse\<close> throws or when reading
  \<^verbatim>\<open>msg.header.event\<close> throws.
\<close>

definition headerOf :: "json option \<Rightarrow> json option" where
  "headerOf parsed =
     (case parsed of
        None \<Rightarrow> None
      | Some msg \<Rightarrow>
          (case deref (Some msg) of
             Inl e \<Rightarrow> None
           | Inr m \<Rightarrow> (case deref (field m ''header'') of Inl e \<Rightarrow> None | Inr hdr \<Rightarrow> Some hdr)))"

text \<open>Whether a value can be converted to a string without an exception.\<close>

definition printable :: "(real \<Rightarrow> string) \<Rightarrow> json option \<Rightarrow> bool" where
  "printable numberToString v =
     (case toString numberToString v of Inl e \<Rightarrow> False | Inr t \<Rightarrow> True)"

text \<open>The string a value converts to, empty when the conversion throws.\<close>

definition textOf :: "(real \<Rightarrow> string) \<Rightarrow> json option \<Rightarrow> string" where
  "textOf numberToString v = (case toString numberToString v of Inl e \<Rightarrow> [] | Inr t \<Rightarrow> t)"

text \<open>
  The header of a control frame the handler takes in: the frame has a header, and the
  event and the task id in it can be written into the log line. Every other text frame
  is malformed: it ends in the \<^verbatim>\<open>catch\<close> before any branch is taken.
\<close>

definition received :: "(real \<Rightarrow> string) \<Rightarrow> json option \<Rightarrow> json option" where
  "received numberToString parsed =
     (case headerOf parsed of
        None \<Rightarrow> None
      | Some hdr \<Rightarrow>
          if printable numberToString (field hdr ''event'')
             \<and> printable numberToString (field hdr ''task_id'')
          then Some hdr else None)"

definition eventOf :: "(real \<Rightarrow> string) \<Rightarrow> json option \<Rightarrow> json option" where
  "eventOf numberToString parsed =
     (case received numberToString parsed of None \<Rightarrow> None | Some hdr \<Rightarrow> field hdr ''event'')"

text \<open>The exception a malformed frame raises.\<close>

definition parseFailure :: "json option \<Rightarrow> exn" where
  "parseFailure parsed = (if parsed = None then SyntaxError else TypeError)"

text \<open>
  The error a task-failed frame makes the session fail its sink with: \<open>None\<close> for a frame
  that is not a task-failed event the handler takes in, and for one whose error code or
  message cannot be written into the log line.
\<close>

definition failureOf :: "(real \<Rightarrow> string) \<Rightarrow> json option \<Rightarrow> js_error option" where
  "failureOf numberToString parsed =
     (case received numberToString parsed of
        None \<Rightarrow> None
      | Some hdr \<Rightarrow>
          if field hdr ''event'' = Some (JStr ''task-failed'')
             \<and> printable numberToString (field hdr ''error_code'')
             \<and> printable numberToString
                 (Some (jsOr (field hdr ''error_message'') ''CosyVoice task failed''))
          then Some (Error (textOf numberToString
                 (Some (jsOr (field hdr ''error_message'') ''CosyVoice task failed''))))
          else None)"

text \<open>A control frame as the service sends it: an event name and further header members.\<close>

definition controlMsg :: "string \<Rightarrow> (string \<times> json) list \<Rightarrow> json option" where
  "controlMsg name members = Some (JObj [(''header'', JObj ((''event'', JStr name) # members))])"

definition controlFrame :: "string \<Rightarrow> (string \<times> json) list \<Rightarrow> event" where
  "controlFrame name members = Message (Text (controlMsg name members))"

text \<open>A way of writing numbers, for sessions in which no number is converted.\<close>

definition noNumberText :: "real \<Rightarrow> string" where
  "noNumberText a = []"

text \<open>
  The events that make the session finalize its sink: a task-finished event, a task-failed
  event whose log line can be written, a transport error.
\<close>

fun terminal :: "(real \<Rightarrow> string) \<Rightarrow> event \<Rightarrow> bool" where
  "terminal numberToString (WsError err) = True"
| "terminal numberToString (Message (Text parsed)) =
     (eventOf numberToString parsed = Some (JStr ''task-finished'')
      \<or> failureOf numberToString parsed \<noteq> None)"
| "terminal numberToString e = False"

text \<open>
  The form of a UUID as \<^verbatim>\<open>randomUUID()\<close> returns it: 36 characters, hyphens exactly at
  the positions 8, 13, 18 and 23.
\<close>

definition uuidShape :: "bool list" where
  "uuidShape =
     replicate 8 False @ True # replicate 4 False @ True # replicate 4 False @ True
       # replicate 4 False @ True # replicate 12 False"

definition isUuid :: "string \<Rightarrow> bool" where
  "isUuid u = (map (\<lambda>c. c = CHR ''-'') u = uuidShape)"

text \<open>The five ways a session can finalize, read off the promise and the stream.\<close>

datatype outcome =
    ResolvedWithBuffer
  | ResolvedEmptyInFileMode
  | StreamEnd
  | StreamError
  | PromiseRejected

definition promiseOutcomes :: "session \<Rightarrow> outcome list" where
  "promiseOutcomes s =
     (case promise s of
        Pending \<Rightarrow> []
      | Resolved ResOutputStream \<Rightarrow> []
      | Resolved (ResBuffer b) \<Rightarrow>
          (if fileStream s \<noteq> None then [ResolvedEmptyInFileMode] else [ResolvedWithBuffer])
      | Rejected e \<Rightarrow> [PromiseRejected])"

fun streamOutcome :: "stream_call \<Rightarrow> outcome list" where
  "streamOutcome End = [StreamEnd]"
| "streamOutcome (EmitError e) = [StreamError]"
| "streamOutcome c = []"

definition outcomes :: "session \<Rightarrow> outcome list" where
  "outcomes s = promiseOutcomes s @ concat (map streamOutcome (outputStream s))"

text \<open>The chunks written to a stream, and the chunks the active sink has received.\<close>

fun written :: "stream_call list \<Rightarrow> buffer list" where
  "written [] = []"
| "written (Write b # cs) = b # written cs"
| "written (c # cs) = written cs"

definition sinkChunks :: "TtsOptions \<Rightarrow> session \<Rightarrow> buffer list" where
  "sinkChunks options s =
     (case fileStream s of
        Some (path, calls) \<Rightarrow> written calls
      | None \<Rightarrow> if streamFlag options then written (outputStream s) else audioChunks s)"

fun binaryPayloads :: "event list \<Rightarrow> buffer list" where
  "binaryPayloads [] = []"
| "binaryPayloads (Message (Binary b) # es) = b # binaryPayloads es"
| "binaryPayloads (e # es) = binaryPayloads es"

text \<open>What one event makes the session call on the live stream, in stream mode.\<close>

fun streamCalls :: "(real \<Rightarrow> string) \<Rightarrow> event \<Rightarrow> stream_call list" where
  "streamCalls numberToString (Message (Binary b)) = [Write b]"
| "streamCalls numberToString (Message (Text parsed)) =
     (if eventOf numberToString parsed = Some (JStr ''task-finished'') then [End]
      else (case failureOf numberToString parsed of
              None \<Rightarrow> []
            | Some error \<Rightarrow> [EmitError error]))"
| "streamCalls numberToString (WsError err) = [EmitError err]"
| "streamCalls numberToString Open = []"

text \<open>A session with its log lines dropped: what the caller and the service can observe.\<close>

definition withoutLog :: "session \<Rightarrow> session" where
  "withoutLog s = s\<lparr>logger := []\<rparr>"

section \<open>Parameter mapping\<close>

lemma binadeFrom_le:
  assumes "a < 2 powi (K + 1)" and "- 1022 \<le> K"
  shows "binadeFrom n a \<le> K"
proof (induction n)
  case 0
  then show ?case using assms(2) by simp
next
  case (Suc n)
  show ?case
  proof (cases "2 powi (int (Suc n) - 1022) \<le> a")
    case True
    with assms(1) have "(2::real) powi (int (Suc n) - 1022) < 2 powi (K + 1)" by simp
    then have "int (Suc n) - 1022 < K + 1"
      using power_int_increasing [of "K + 1" "int (Suc n) - 1022" "2::real"] by fastforce
    with True show ?thesis by simp
  next
    case False
    with Suc.IH show ?thesis by simp
  qed
qed

lemma binadeFrom_eq:
  assumes "2 powi k \<le> a" and "a < 2 powi (k + 1)" and "- 1022 < k" and "k \<le> int n - 1022"
  shows "binadeFrom n a = k"
  using assms(4)
proof (induction n)
  case 0
  with assms(3) show ?case by simp
next
  case (Suc n)
  show ?case
  proof (cases "int (Suc n) - 1022 = k")
    case True
    with assms(1) show ?thesis by simp
  next
    case False
    with Suc.prems have le: "k \<le> int n - 1022" by simp
    have "\<not> 2 powi (int (Suc n) - 1022) \<le> a"
    proof
      assume "2 powi (int (Suc n) - 1022) \<le> a"
      with assms(2) have "(2::real) powi (int (Suc n) - 1022) < 2 powi (k + 1)" by simp
      then have "int (Suc n) - 1022 < k + 1"
        using power_int_increasing [of "k + 1" "int (Suc n) - 1022" "2::real"] by fastforce
      with le show False by simp
    qed
    with Suc.IH [OF le] show ?thesis by simp
  qed
qed

lemma nearestDouble_eq:
  assumes "2 powi k \<le> \<bar>x\<bar>" and "\<bar>x\<bar> < 2 powi (k + 1)" and "- 1022 < k" and "k \<le> 1023"
  shows "nearestDouble x = of_int (roundTiesToEven (x / 2 powi (k - 52))) * 2 powi (k - 52)"
proof -
  have "binade x = k"
    unfolding binade_def using assms by (intro binadeFrom_eq) simp_all
  then show ?thesis by (simp add: nearestDouble_def ulp_def)
qed

lemma roundTiesToEven_bounds:
  "\<lfloor>y\<rfloor> \<le> roundTiesToEven y" "roundTiesToEven y \<le> \<lceil>y\<rceil>"
  by (auto simp: roundTiesToEven_def Let_def ceiling_altdef)

lemma nearestDouble_range:
  assumes "0 \<le> x" and "x \<le> 100"
  shows "0 \<le> nearestDouble x" and "nearestDouble x \<le> 100"
proof -
  let ?k = "binade x - 52"
  have "binade x \<le> 6"
    unfolding binade_def using assms by (intro binadeFrom_le) (simp_all add: power_int_def)
  then have k: "?k \<le> - 46" by simp
  have u: "ulp x = 2 powi ?k" by (simp add: ulp_def)
  have upos: "0 < ulp x" by (simp add: u)
  have "0 \<le> x / ulp x" using assms(1) upos by simp
  then have "0 \<le> \<lfloor>x / ulp x\<rfloor>" by simp
  with roundTiesToEven_bounds(1) [of "x / ulp x"]
  have "0 \<le> roundTiesToEven (x / ulp x)" by linarith
  then show "0 \<le> nearestDouble x"
    using upos by (simp add: nearestDouble_def)
  have n: "100 / ulp x = of_int (100 * 2 ^ nat (- ?k))"
    using k by (simp add: u power_int_def field_simps)
  moreover have "x / ulp x \<le> 100 / ulp x"
    using assms(2) upos by (simp add: divide_right_mono)
  ultimately have "x / ulp x \<le> of_int (100 * 2 ^ nat (- ?k))" by simp
  then have "\<lceil>x / ulp x\<rceil> \<le> 100 * 2 ^ nat (- ?k)" by (simp add: ceiling_le_iff)
  with roundTiesToEven_bounds(2) [of "x / ulp x"]
  have "roundTiesToEven (x / ulp x) \<le> 100 * 2 ^ nat (- ?k)" by linarith
  then have "of_int (roundTiesToEven (x / ulp x)) \<le> (of_int (100 * 2 ^ nat (- ?k)) :: real)"
    by (simp only: of_int_le_iff)
  also have "\<dots> = 100 / ulp x" using n by simp
  finally show "nearestDouble x \<le> 100"
    using upos by (simp add: nearestDouble_def pos_le_divide_eq)
qed

lemma product_unit:
  fixes v :: real
  assumes "0 \<le> v" "v \<le> 1"
  shows "jsMul (Fin v) (Fin 100) = Fin (nearestDouble (v * 100))"
    and "max 0 (min 100 (nearestDouble (v * 100))) = nearestDouble (v * 100)"
    and "max 0 (min 100 (round (nearestDouble (v * 100)))) = round (nearestDouble (v * 100))"
proof -
  have x: "0 \<le> v * 100" "v * 100 \<le> 100" using assms by simp_all
  note r = nearestDouble_range [OF x]
  have "\<bar>nearestDouble (v * 100)\<bar> \<le> 100" using r by simp
  also have "(100::real) < 2 ^ 1024" by simp
  finally show "jsMul (Fin v) (Fin 100) = Fin (nearestDouble (v * 100))"
    by (simp add: toDouble_def Let_def)
  show "max 0 (min 100 (nearestDouble (v * 100))) = nearestDouble (v * 100)"
    using r by simp
  have "round (0::real) \<le> round (nearestDouble (v * 100))" using r by (intro round_mono)
  moreover have "round (nearestDouble (v * 100)) \<le> round (100::real)"
    using r by (intro round_mono)
  ultimately show "max 0 (min 100 (round (nearestDouble (v * 100)))) =
      round (nearestDouble (v * 100))"
    by simp
qed

text \<open>
  C6. For a volume \<open>v\<close> with \<open>0 \<le> v \<le> 1\<close>, the product \<^verbatim>\<open>volume * 100\<close> is the double nearest
  to the exact product, and the volume computed for the run-task command, and found in
  that command under payload, parameters, volume, is that product rounded to the nearest
  integer and clamped to the range from 0 to 100, with 50 in place of 0.
\<close>

theorem cosyVolume_unit_interval:
  assumes "0 \<le> v" and "v \<le> 1"
  shows "jsMul (Fin v) (Fin 100) = Fin (nearestDouble (v * 100))
       \<and> cosyVolume (options\<lparr>volume := Some (Fin v)\<rparr>) =
           (let r = max 0 (min 100 (round (nearestDouble (v * 100))))
            in Fin (if r = 0 then 50 else of_int r))
       \<and> jsonPath (runTaskCmd taskId (options\<lparr>volume := Some (Fin v)\<rparr>))
              [''payload'', ''parameters'', ''volume''] =
           (let r = max 0 (min 100 (round (nearestDouble (v * 100))))
            in Some (JNum (if r = 0 then 50 else of_int r)))"
proof -
  note c = product_unit [OF assms]
  have g: "cosyVolume (options\<lparr>volume := Some (Fin v)\<rparr>) =
           (let r = max 0 (min 100 (round (nearestDouble (v * 100))))
            in Fin (if r = 0 then 50 else of_int r))"
    by (simp add: cosyVolume_def jsOrNum_def c Let_def del: jsMul.simps)
  have "jsonPath (runTaskCmd taskId (options\<lparr>volume := Some (Fin v)\<rparr>))
            [''payload'', ''parameters'', ''volume''] =
          Some (numJson (cosyVolume (options\<lparr>volume := Some (Fin v)\<rparr>)))"
    by (simp add: runTaskCmd_def)
  with g c(1) show ?thesis by (simp add: Let_def del: jsMul.simps)
qed

lemma nearestDouble_scaled:
  assumes "2 powi k \<le> \<bar>x\<bar>" and "\<bar>x\<bar> < 2 powi (k + 1)" and "- 1022 < k" and "k \<le> 52"
  shows "nearestDouble x =
           of_int (roundTiesToEven (x * 2 ^ nat (52 - k))) / 2 ^ nat (52 - k)"
proof -
  have "(2::real) powi (k - 52) = 1 / 2 ^ nat (52 - k)"
    using assms(4) by (simp add: power_int_def field_simps)
  then show ?thesis
    using nearestDouble_eq [OF assms(1,2,3)] assms(4) by simp
qed

lemma nearestDouble_examples:
  "nearestDouble (1 / 2 * 100) = 50"
  "nearestDouble (0 * 100) = 0"
  "nearestDouble (1 * 100) = 100"
  "nearestDouble (1080863910568919 / 2 ^ 56 * 100) = 3 / 2"
proof -
  show "nearestDouble (1 / 2 * 100) = 50"
    by (subst nearestDouble_scaled [of 5]) (simp_all add: power_int_def roundTiesToEven_def Let_def)
  show "nearestDouble (1 * 100) = 100"
    by (subst nearestDouble_scaled [of 6]) (simp_all add: power_int_def roundTiesToEven_def Let_def)
  show "nearestDouble (0 * 100) = 0"
    by (simp add: nearestDouble_def roundTiesToEven_def)
  show "nearestDouble (1080863910568919 / 2 ^ 56 * 100) = 3 / 2"
    by (subst nearestDouble_scaled [of 0]) (simp_all add: power_int_def roundTiesToEven_def Let_def)
qed

theorem cosyVolume_unit_interval_witness:
  "(0::real) \<le> 1080863910568919 / 2 ^ 56 \<and> (1080863910568919 / 2 ^ 56 :: real) \<le> 1
   \<and> cosyVolume (defaultOptions\<lparr>volume := Some (Fin (1080863910568919 / 2 ^ 56))\<rparr>) = Fin 2
   \<and> jsonPath (runTaskCmd ''t''
         (defaultOptions\<lparr>volume := Some (Fin (1080863910568919 / 2 ^ 56))\<rparr>))
       [''payload'', ''parameters'', ''volume''] = Some (JNum 2)
   \<and> cosyVolume (defaultOptions\<lparr>volume := Some (Fin (1 / 2))\<rparr>) = Fin 50
   \<and> cosyVolume (defaultOptions\<lparr>volume := Some (Fin 0)\<rparr>) = Fin 50
   \<and> cosyVolume (defaultOptions\<lparr>volume := Some (Fin 1)\<rparr>) = Fin 100"
proof -
  have h: "(0::real) \<le> 1080863910568919 / 2 ^ 56" "(1080863910568919 / 2 ^ 56 :: real) \<le> 1"
    by simp_all
  have r: "round (3 / 2 :: real) = 2" "round (50 :: real) = 50" "round (0 :: real) = 0"
    "round (100 :: real) = 100"
    by (simp_all add: round_def)
  from cosyVolume_unit_interval [OF h, of defaultOptions "''t''"]
    cosyVolume_unit_interval [of "1 / 2" defaultOptions "''t''"]
    cosyVolume_unit_interval [of 0 defaultOptions "''t''"]
    cosyVolume_unit_interval [of 1 defaultOptions "''t''"]
  show ?thesis
    using h by (simp only: nearestDouble_examples r) (simp add: Let_def)
qed

section \<open>Facts about the handlers\<close>

lemma deref_Inl: "deref x = Inl e \<Longrightarrow> e = TypeError"
  by (cases x rule: deref.cases) auto

lemma valueToString_Inl:
  shows "valueToString numberToString v = Inl e \<Longrightarrow> e = TypeError"
    and "elementsToString numberToString vs = Inl e \<Longrightarrow> e = TypeError"
  by (induction numberToString v and numberToString vs
        rule: valueToString_elementsToString.induct)
    (auto split: sum.splits if_splits)

lemma toString_Inl: "toString numberToString v = Inl e \<Longrightarrow> e = TypeError"
  by (cases v) (auto dest: valueToString_Inl(1))

text \<open>
  What the message handler does with a text frame, by cases on the frame: a malformed
  frame is logged; a control frame is logged and dispatched on its event; a task-failed
  frame whose log line cannot be written closes the web socket and is logged.
\<close>

lemma onText_cases:
  "onText numberToString text taskId options parsed s =
     (case received numberToString parsed of
        None \<Rightarrow> logLine (ErrorParsing (parseFailure parsed)) s
      | Some hdr \<Rightarrow>
          (let ev = field hdr ''event'';
               s1 = logLine (InfoReceivedEvent (textOf numberToString ev)
                      (textOf numberToString (field hdr ''task_id''))) s
           in if ev = Some (JStr ''task-started'') then taskStarted text taskId s1
              else if ev = Some (JStr ''result-generated'') then logLine InfoResultGenerated s1
              else if ev = Some (JStr ''task-finished'') then taskFinished options s1
              else if ev = Some (JStr ''task-failed'')
              then (let errorMsg = jsOr (field hdr ''error_message'') ''CosyVoice task failed''
                    in if printable numberToString (field hdr ''error_code'')
                          \<and> printable numberToString (Some errorMsg)
                       then (let s2 = logLine (ErrorTaskFailed
                                        (textOf numberToString (field hdr ''error_code''))
                                        (textOf numberToString (Some errorMsg)))
                                      (wsCall Close s1);
                                 error = Error (textOf numberToString (Some errorMsg))
                             in if fileStream s2 \<noteq> None
                                then doReject error (fileStreamCall (Destroy error) s2)
                                else if streamFlag options
                                then outputStreamCall (EmitError error) s2
                                else doReject error s2)
                       else logLine (ErrorParsing TypeError) (wsCall Close s1))
              else s1))"
proof -
  have tf: "taskFailed numberToString options hdr t =
      (let errorMsg = jsOr (field hdr ''error_message'') ''CosyVoice task failed''
       in if printable numberToString (field hdr ''error_code'')
             \<and> printable numberToString (Some errorMsg)
          then (let s2 = logLine (ErrorTaskFailed
                           (textOf numberToString (field hdr ''error_code''))
                           (textOf numberToString (Some errorMsg)))
                         (wsCall Close t);
                    error = Error (textOf numberToString (Some errorMsg))
                in Normal (if fileStream s2 \<noteq> None
                   then doReject error (fileStreamCall (Destroy error) s2)
                   else if streamFlag options
                   then outputStreamCall (EmitError error) s2
                   else doReject error s2))
          else Throw TypeError (wsCall Close t))" for hdr t
    unfolding taskFailed_def printable_def textOf_def Let_def
    by (auto dest: toString_Inl valueToString_Inl(1) split: sum.splits)
  have oc: "onControl numberToString text taskId options hdr s =
      (if printable numberToString (field hdr ''event'')
          \<and> printable numberToString (field hdr ''task_id'')
       then (let ev = field hdr ''event'';
                 s1 = logLine (InfoReceivedEvent (textOf numberToString ev)
                        (textOf numberToString (field hdr ''task_id''))) s
             in if ev = Some (JStr ''task-started'') then Normal (taskStarted text taskId s1)
                else if ev = Some (JStr ''result-generated'')
                then Normal (logLine InfoResultGenerated s1)
                else if ev = Some (JStr ''task-finished'') then Normal (taskFinished options s1)
                else if ev = Some (JStr ''task-failed'')
                then taskFailed numberToString options hdr s1
                else Normal s1)
       else Throw TypeError s)" for hdr
    unfolding onControl_def printable_def textOf_def Let_def
    by (auto dest: toString_Inl valueToString_Inl(1) split: sum.splits)
  have tb: "tryBlock numberToString text taskId options parsed s =
      (case headerOf parsed of
         None \<Rightarrow> Throw (parseFailure parsed) s
       | Some hdr \<Rightarrow> onControl numberToString text taskId options hdr s)"
    unfolding tryBlock_def headerOf_def parseFailure_def
    by (auto dest: deref_Inl split: option.splits sum.splits)
  show ?thesis
  proof (cases "headerOf parsed")
    case None
    then show ?thesis by (simp add: onText_def tb received_def)
  next
    case (Some hdr)
    show ?thesis
    proof (cases "printable numberToString (field hdr ''event'')
          \<and> printable numberToString (field hdr ''task_id'')")
      case False
      with Some show ?thesis
        by (auto simp: onText_def tb oc received_def parseFailure_def headerOf_def)
    next
      case True
      with Some show ?thesis
        by (simp add: onText_def tb oc tf received_def Let_def)
    qed
  qed
qed

lemmas effect_defs =
  wsCall_def outputStreamCall_def fileStreamCall_def logLine_def doResolve_def doReject_def

lemmas handler_defs =
  onOpen_def onBinary_def taskStarted_def taskFinished_def onError_def

lemmas frame_defs = eventOf_def failureOf_def

lemma written_append: "written (xs @ ys) = written xs @ written ys"
  by (induction xs rule: written.induct) auto

lemma binaryPayloads_append: "binaryPayloads (xs @ ys) = binaryPayloads xs @ binaryPayloads ys"
  by (induction xs rule: binaryPayloads.induct) auto

lemma sinkChunks_handle:
  "sinkChunks options (handle numberToString text taskId options s e) = sinkChunks options s @ binaryPayloads [e]"
proof (cases e)
  case Open
  then show ?thesis
    by (auto simp: sinkChunks_def handler_defs effect_defs Let_def split: option.splits)
next
  case (Message f)
  show ?thesis
  proof (cases f)
    case (Binary b)
    with Message show ?thesis
      by (auto simp: sinkChunks_def handler_defs effect_defs written_append split: option.splits)
  next
    case (Text p)
    with Message show ?thesis
      by (auto simp: sinkChunks_def onText_cases frame_defs handler_defs effect_defs Let_def written_append
            split: option.splits)
  qed
next
  case (WsError err)
  then show ?thesis
    by (auto simp: sinkChunks_def handler_defs effect_defs Let_def written_append split: option.splits)
qed

lemma sinkChunks_deliver:
  "sinkChunks options (deliver numberToString text taskId options s es) = sinkChunks options s @ binaryPayloads es"
proof (induction es arbitrary: s)
  case Nil
  then show ?case by simp
next
  case (Cons e es)
  have "binaryPayloads (e # es) = binaryPayloads [e] @ binaryPayloads es"
    using binaryPayloads_append [of "[e]" es] by simp
  then show ?case by (simp add: Cons.IH sinkChunks_handle)
qed

lemma sinkChunks_start: "sinkChunks options (start options) = []"
  by (simp add: start_def sinkChunks_def effect_defs Let_def)

lemma deliver_append:
  "deliver numberToString text taskId options s (xs @ ys) =
     deliver numberToString text taskId options (deliver numberToString text taskId options s xs) ys"
  by (induction xs arbitrary: s) auto

lemma synthesize_snoc:
  "synthesize numberToString text uuid options (es @ [e]) =
     handle numberToString text (removeHyphens uuid) options (synthesize numberToString text uuid options es) e"
  by (simp add: synthesize_def deliver_append)

lemma fileStream_handle:
  "(fileStream (handle numberToString text taskId options s e) = None) = (fileStream s = None)"
proof (cases e)
  case Open
  then show ?thesis by (simp add: handler_defs effect_defs Let_def)
next
  case (Message f)
  then show ?thesis
    by (cases f)
      (auto simp: onText_cases frame_defs handler_defs effect_defs Let_def split: option.splits)
next
  case (WsError err)
  then show ?thesis by (auto simp: handler_defs effect_defs Let_def split: option.splits)
qed

lemma fileStream_deliver:
  "(fileStream (deliver numberToString text taskId options s es) = None) = (fileStream s = None)"
  by (induction es arbitrary: s) (simp_all add: fileStream_handle)

lemma fileStream_start: "(fileStream (start options) = None) = (\<not> opensFile options)"
  by (simp add: start_def effect_defs Let_def)

lemma fileStream_synthesize:
  "(fileStream (synthesize numberToString text uuid options events) = None) = (\<not> opensFile options)"
  by (simp add: synthesize_def fileStream_deliver fileStream_start)

lemma handle_options_cong:
  assumes "runTaskCmd taskId o1 = runTaskCmd taskId o2" and "streamFlag o1 = streamFlag o2"
  shows "handle numberToString text taskId o1 s e = handle numberToString text taskId o2 s e"
proof (cases e)
  case Open
  then show ?thesis using assms by (simp add: onOpen_def)
next
  case (Message f)
  show ?thesis
  proof (cases f)
    case (Binary b)
    with Message assms show ?thesis by (simp add: onBinary_def cong: if_cong)
  next
    case (Text parsed)
    have "taskFinished o1 t = taskFinished o2 t" for t
      using assms by (simp add: taskFinished_def Let_def cong: if_cong)
    with Message Text assms(2) show ?thesis
      by (simp add: onText_cases Let_def cong: if_cong option.case_cong)
  qed
next
  case (WsError err)
  then show ?thesis using assms by (simp add: onError_def Let_def cong: if_cong)
qed

lemma deliver_options_cong:
  assumes "runTaskCmd taskId o1 = runTaskCmd taskId o2" and "streamFlag o1 = streamFlag o2"
  shows "deliver numberToString text taskId o1 s es = deliver numberToString text taskId o2 s es"
  by (induction es arbitrary: s) (simp_all add: handle_options_cong [OF assms])

lemma synthesize_options_cong:
  assumes "runTaskCmd (removeHyphens uuid) o1 = runTaskCmd (removeHyphens uuid) o2"
    and "streamFlag o1 = streamFlag o2" and "opensFile o1 = opensFile o2"
    and "output o1 = output o2"
  shows "synthesize numberToString text uuid o1 es = synthesize numberToString text uuid o2 es"
  using assms by (simp add: synthesize_def start_def deliver_options_cong [OF assms(1,2)])

lemma runTaskCmd_pitch: "runTaskCmd taskId (options\<lparr>pitch := p\<rparr>) = runTaskCmd taskId options"
  by (simp add: runTaskCmd_def cosyVolume_def cosySpeed_def)

lemma runTaskCmd_outputType:
  "runTaskCmd taskId (options\<lparr>outputType := x\<rparr>) = runTaskCmd taskId options"
  by (simp add: runTaskCmd_def cosyVolume_def cosySpeed_def)

section \<open>Sink routing\<close>

text \<open>
  C9. Whatever events the transport delivers, and in whatever order, the chunks the active
  sink has received (written to the file when one was opened, else written to the live
  stream in stream mode, else pushed onto \<open>audioChunks\<close>) are exactly the payloads of the
  binary frames, in arrival order: a binary frame is routed to the sink whether or not a
  task-started event came before it. The sink is the file exactly when the options made
  \<open>synthesize\<close> open one.
\<close>

theorem binary_frames_reach_sink:
  "sinkChunks options (synthesize numberToString text uuid options events) = binaryPayloads events
   \<and> (fileStream (synthesize numberToString text uuid options events) = None) = (\<not> opensFile options)"
  by (simp add: synthesize_def sinkChunks_deliver sinkChunks_start fileStream_deliver
        fileStream_start)

section \<open>Pitch\<close>

text \<open>
  C7. The session of a request does not depend on the pitch option: two requests that
  differ only in \<open>pitch\<close> send the same run-task command and behave alike on every
  sequence of events, and the pitch parameter of the run-task command is always 1.
\<close>

theorem pitch_ignored:
  "synthesize numberToString text uuid (options\<lparr>pitch := p\<rparr>) events =
     synthesize numberToString text uuid (options\<lparr>pitch := q\<rparr>) events
   \<and> runTaskCmd taskId (options\<lparr>pitch := p\<rparr>) = runTaskCmd taskId (options\<lparr>pitch := q\<rparr>)
   \<and> jsonPath (runTaskCmd taskId (options\<lparr>pitch := p\<rparr>)) [''payload'', ''parameters'', ''pitch'']
       = Some (JNum 1)"
proof -
  have "synthesize numberToString text uuid (options\<lparr>pitch := r\<rparr>) events = synthesize numberToString text uuid options events"
    for r
    by (rule synthesize_options_cong)
      (simp_all add: runTaskCmd_pitch streamFlag_def opensFile_def)
  then have "synthesize numberToString text uuid (options\<lparr>pitch := p\<rparr>) events =
     synthesize numberToString text uuid (options\<lparr>pitch := q\<rparr>) events"
    by simp
  moreover have "jsonPath (runTaskCmd taskId (options\<lparr>pitch := p\<rparr>))
      [''payload'', ''parameters'', ''pitch''] = Some (JNum 1)"
    by (simp add: runTaskCmd_def cosyPitch_def)
  ultimately show ?thesis by (simp add: runTaskCmd_pitch)
qed

section \<open>Malformed control frames\<close>

lemma withoutLog_handle:
  "withoutLog (handle numberToString text taskId options (withoutLog s) e) =
     withoutLog (handle numberToString text taskId options s e)"
proof (cases e)
  case Open
  then show ?thesis by (simp add: withoutLog_def handler_defs effect_defs Let_def)
next
  case (Message f)
  then show ?thesis
    by (cases f)
      (auto simp: withoutLog_def onText_cases frame_defs handler_defs effect_defs Let_def
         split: option.splits)
next
  case (WsError err)
  then show ?thesis
    by (auto simp: withoutLog_def handler_defs effect_defs Let_def split: option.splits)
qed

lemma withoutLog_deliver:
  "withoutLog (deliver numberToString text taskId options (withoutLog s) es) =
     withoutLog (deliver numberToString text taskId options s es)"
proof (induction es arbitrary: s)
  case Nil
  then show ?case by (simp add: withoutLog_def)
next
  case (Cons e es)
  have "withoutLog (deliver numberToString text taskId options (withoutLog s) (e # es)) =
        withoutLog (deliver numberToString text taskId options
          (withoutLog (handle numberToString text taskId options (withoutLog s) e)) es)"
    by (simp add: Cons.IH)
  also have "\<dots> = withoutLog (deliver numberToString text taskId options
          (withoutLog (handle numberToString text taskId options s e)) es)"
    by (simp only: withoutLog_handle)
  also have "\<dots> = withoutLog (deliver numberToString text taskId options s (e # es))"
    by (simp add: Cons.IH)
  finally show ?case .
qed

lemma onText_malformed:
  assumes "received numberToString parsed = None"
  shows "onText numberToString text taskId options parsed s =
           s\<lparr>logger := logger s @ [ErrorParsing (parseFailure parsed)]\<rparr>"
  using assms by (simp add: onText_cases logLine_def)

lemmas run_defs =
  synthesize_def start_def opensFile_def streamFlag_def defaultOptions_def removeHyphens_def
  controlFrame_def controlMsg_def onText_def tryBlock_def onControl_def taskFailed_def
  handler_defs effect_defs Let_def

lemmas frame_eval =
  frame_defs received_def printable_def textOf_def headerOf_def controlMsg_def controlFrame_def
  jsOr_def

text \<open>
  C8, as the code has it. A text frame that ends in the \<^verbatim>\<open>catch\<close> before any branch is
  taken (\<^verbatim>\<open>JSON.parse\<close> throws, reading \<^verbatim>\<open>msg.header.event\<close> throws, or the event or the
  task id cannot be written into the log line) only adds one error line to the log: the
  handler leaves the promise, the stream, the file, the chunks and the web socket as they
  were. A session that receives such a frame between any events \<open>before\<close> and \<open>after\<close>
  ends, log lines apart, in the same state as the session that does not receive it.
\<close>

theorem malformed_frame_swallowed:
  assumes "received numberToString parsed = None"
  shows "handle numberToString text taskId options s (Message (Text parsed)) =
           s\<lparr>logger := logger s @ [ErrorParsing (parseFailure parsed)]\<rparr>
         \<and> withoutLog (synthesize numberToString text uuid options
              (before @ Message (Text parsed) # after)) =
           withoutLog (synthesize numberToString text uuid options (before @ after))"
proof -
  let ?d = "deliver numberToString text (removeHyphens uuid) options"
  let ?s = "?d (start options) before"
  let ?t = "onText numberToString text (removeHyphens uuid) options parsed ?s"
  have "withoutLog ?t = withoutLog ?s"
    by (simp add: onText_malformed [OF assms] withoutLog_def)
  then have "withoutLog (?d (withoutLog ?t) after) = withoutLog (?d (withoutLog ?s) after)"
    by simp
  then have "withoutLog (?d ?t after) = withoutLog (?d ?s after)"
    by (simp only: withoutLog_deliver)
  then show ?thesis
    by (simp add: synthesize_def deliver_append onText_malformed [OF assms])
qed

theorem malformed_frame_swallowed_witness:
  "received noNumberText None = None
   \<and> received noNumberText
        (controlMsg ''task-finished'' [(''task_id'', JObj [(''toString'', JNull)])]) = None
   \<and> withoutLog (synthesize noNumberText ''hi'' ''a-b'' defaultOptions
        ([Open, controlFrame ''task-started'' [], Message (Binary [0x41, 0x41])]
          @ Message (Text None)
          # [Message (Binary [0x42, 0x42]), controlFrame ''task-finished'' []]))
     = withoutLog (synthesize noNumberText ''hi'' ''a-b'' defaultOptions
        ([Open, controlFrame ''task-started'' [], Message (Binary [0x41, 0x41])]
          @ [Message (Binary [0x42, 0x42]), controlFrame ''task-finished'' []]))
   \<and> promise (synthesize noNumberText ''hi'' ''a-b'' defaultOptions
        ([Open, controlFrame ''task-started'' [], Message (Binary [0x41, 0x41])]
          @ Message (Text
              (controlMsg ''task-finished'' [(''task_id'', JObj [(''toString'', JNull)])]))
          # [Message (Binary [0x42, 0x42]), controlFrame ''task-finished'' []]))
      = Resolved (ResBuffer [0x41, 0x41, 0x42, 0x42])"
proof -
  let ?b = "[Open, controlFrame ''task-started'' [], Message (Binary [0x41, 0x41])]"
  let ?a = "[Message (Binary [0x42, 0x42]), controlFrame ''task-finished'' []]"
  let ?p = "controlMsg ''task-finished'' [(''task_id'', JObj [(''toString'', JNull)])]"
  have h: "received noNumberText None = None" "received noNumberText ?p = None"
    by (simp_all add: received_def headerOf_def controlMsg_def printable_def)
  have r: "promise (synthesize noNumberText ''hi'' ''a-b'' defaultOptions (?b @ ?a))
      = Resolved (ResBuffer [0x41, 0x41, 0x42, 0x42])"
    by (simp add: run_defs)
  have "withoutLog (synthesize noNumberText ''hi'' ''a-b'' defaultOptions
          (?b @ Message (Text ?p) # ?a))
        = withoutLog (synthesize noNumberText ''hi'' ''a-b'' defaultOptions (?b @ ?a))"
    using malformed_frame_swallowed [OF h(2)] by blast
  then have "promise (withoutLog (synthesize noNumberText ''hi'' ''a-b'' defaultOptions
          (?b @ Message (Text ?p) # ?a)))
        = promise (withoutLog (synthesize noNumberText ''hi'' ''a-b'' defaultOptions (?b @ ?a)))"
    by (rule arg_cong)
  with r have q: "promise (synthesize noNumberText ''hi'' ''a-b'' defaultOptions
          (?b @ Message (Text ?p) # ?a)) = Resolved (ResBuffer [0x41, 0x41, 0x42, 0x42])"
    by (simp add: withoutLog_def)
  have w: "withoutLog (synthesize noNumberText ''hi'' ''a-b'' defaultOptions
          (?b @ Message (Text None) # ?a))
        = withoutLog (synthesize noNumberText ''hi'' ''a-b'' defaultOptions (?b @ ?a))"
    using malformed_frame_swallowed [OF h(1)] by blast
  from h w q show ?thesis by blast
qed

theorem malformed_frame_swallowed_counterexample:
  "logger (synthesize noNumberText ''hi'' ''id'' defaultOptions
     [controlFrame ''task-failed'' [(''error_code'', JObj [(''toString'', JNum 1)])]])
     = [InfoReceivedEvent ''task-failed'' ''undefined'', ErrorParsing TypeError]
   \<and> ws (synthesize noNumberText ''hi'' ''id'' defaultOptions []) = []
   \<and> ws (synthesize noNumberText ''hi'' ''id'' defaultOptions
     [controlFrame ''task-failed'' [(''error_code'', JObj [(''toString'', JNum 1)])]])
     = [Close]
   \<and> promise (synthesize noNumberText ''hi'' ''id'' defaultOptions
     [controlFrame ''task-failed'' [(''error_code'', JObj [(''toString'', JNum 1)])]])
     = Pending"
  by (simp add: run_defs jsOr_def)

section \<open>Buffer mode end to end\<close>

lemma resolve_settled: "p \<noteq> Pending \<Longrightarrow> resolve v p = p"
  by (cases p) auto

lemma reject_settled: "p \<noteq> Pending \<Longrightarrow> reject e p = p"
  by (cases p) auto

lemma promise_handle_settled:
  assumes "promise s \<noteq> Pending"
  shows "promise (handle numberToString text taskId options s e) = promise s"
proof (cases e)
  case Open
  then show ?thesis by (simp add: handler_defs effect_defs Let_def)
next
  case (Message f)
  with assms show ?thesis
    by (cases f)
      (auto simp: onText_cases frame_defs handler_defs effect_defs Let_def resolve_settled
         reject_settled split: option.splits)
next
  case (WsError err)
  with assms show ?thesis
    by (auto simp: handler_defs effect_defs Let_def reject_settled split: option.splits)
qed

lemma promise_deliver_settled:
  "promise s \<noteq> Pending \<Longrightarrow> promise (deliver numberToString text taskId options s es) = promise s"
  by (induction es arbitrary: s) (simp_all add: promise_handle_settled)

lemma promise_handle_nonterminal:
  assumes "\<not> terminal numberToString e"
  shows "promise (handle numberToString text taskId options s e) = promise s"
proof (cases e)
  case Open
  then show ?thesis by (simp add: handler_defs effect_defs Let_def)
next
  case (Message f)
  with assms show ?thesis
    by (cases f)
      (auto simp: onText_cases frame_defs handler_defs effect_defs Let_def
         split: option.splits)
next
  case (WsError err)
  with assms show ?thesis by simp
qed

lemma promise_deliver_nonterminal:
  "filter (terminal numberToString) es = [] \<Longrightarrow> promise (deliver numberToString text taskId options s es) = promise s"
proof (induction es arbitrary: s)
  case Nil
  then show ?case by simp
next
  case (Cons e es)
  then have "\<not> terminal numberToString e" and "filter (terminal numberToString) es = []"
    by (auto split: if_splits)
  with Cons.IH show ?case by (simp add: promise_handle_nonterminal)
qed

text \<open>Buffer mode: no file, no stream.\<close>

lemma buffer_mode_finished:
  assumes "eventOf numberToString parsed = Some (JStr ''task-finished'')"
    and "fileStream s = None" and "\<not> streamFlag options"
  shows "promise (handle numberToString text taskId options s (Message (Text parsed))) =
           resolve (ResBuffer (concat (audioChunks s))) (promise s)"
  using assms
  by (auto simp: onText_cases frame_defs handler_defs effect_defs Let_def
        split: option.splits)

lemma buffer_mode_failed:
  assumes "failureOf numberToString parsed = Some error"
    and "fileStream s = None" and "\<not> streamFlag options"
  shows "promise (handle numberToString text taskId options s (Message (Text parsed))) =
           reject error (promise s)"
  using assms
  by (auto simp: onText_cases frame_defs handler_defs effect_defs Let_def
        split: option.splits if_splits)

lemma promise_start:
  "promise (start options) =
     (if streamFlag options \<and> \<not> opensFile options then Resolved ResOutputStream else Pending)"
  by (simp add: start_def effect_defs Let_def)

lemma audioChunks_buffer_mode:
  assumes "\<not> streamFlag options" and "\<not> opensFile options"
  shows "audioChunks (synthesize numberToString text uuid options es) = binaryPayloads es"
proof -
  have "fileStream (synthesize numberToString text uuid options es) = None"
    using assms by (simp add: fileStream_synthesize)
  then have "sinkChunks options (synthesize numberToString text uuid options es) =
             audioChunks (synthesize numberToString text uuid options es)"
    using assms by (simp add: sinkChunks_def)
  moreover have "sinkChunks options (synthesize numberToString text uuid options es) = binaryPayloads es"
    by (simp add: synthesize_def sinkChunks_deliver sinkChunks_start)
  ultimately show ?thesis by simp
qed

lemma promise_pending_buffer_mode:
  assumes "\<not> streamFlag options" and "filter (terminal numberToString) es = []"
  shows "promise (synthesize numberToString text uuid options es) = Pending"
  using assms by (simp add: synthesize_def promise_deliver_nonterminal promise_start)

lemma buffer_mode_resolves:
  assumes "\<not> streamFlag options" and "\<not> opensFile options" and "filter (terminal numberToString) es = []"
    and "eventOf numberToString parsed = Some (JStr ''task-finished'')"
  shows "promise (synthesize numberToString text uuid options (es @ [Message (Text parsed)])) =
           Resolved (ResBuffer (concat (binaryPayloads es)))"
proof -
  let ?s = "synthesize numberToString text uuid options es"
  have "fileStream ?s = None" using assms(2) by (simp add: fileStream_synthesize)
  then have "promise (handle numberToString text (removeHyphens uuid) options ?s (Message (Text parsed))) =
             resolve (ResBuffer (concat (audioChunks ?s))) (promise ?s)"
    using assms(1,4) by (intro buffer_mode_finished)
  then show ?thesis
    by (simp only: synthesize_snoc audioChunks_buffer_mode [OF assms(1,2)]
          promise_pending_buffer_mode [OF assms(1,3)] resolve.simps)
qed

lemma binaryPayloads_map: "binaryPayloads (map (\<lambda>b. Message (Binary b)) chunks) = chunks"
  by (induction chunks) auto

lemma nonterminal_binary: "filter (terminal numberToString) (map (\<lambda>b. Message (Binary b)) chunks) = []"
  by (induction chunks) auto

lemma ws_start: "ws (start options) = []"
  by (simp add: start_def effect_defs Let_def)

lemma ws_onOpen: "ws (onOpen taskId options s) = ws s @ [Send (runTaskCmd taskId options)]"
  by (simp add: handler_defs effect_defs Let_def)

lemma ws_onText_started:
  assumes "eventOf numberToString parsed = Some (JStr ''task-started'')"
  shows "ws (onText numberToString text taskId options parsed s) =
           ws s @ [Send (continueTaskCmd taskId text), Send (finishTaskCmd taskId)]"
  using assms
  by (auto simp: onText_cases frame_defs handler_defs effect_defs Let_def
        split: option.splits)

lemma hyphens_removed: "CHR ''-'' \<notin> set (removeHyphens u)"
  by (simp add: removeHyphens_def)

lemma removeHyphens_inject:
  assumes "map (\<lambda>c. c = CHR ''-'') u = map (\<lambda>c. c = CHR ''-'') v"
    and "removeHyphens u = removeHyphens v"
  shows "u = v"
  using assms
proof (induction u arbitrary: v)
  case Nil
  then show ?case by simp
next
  case (Cons c cs)
  then obtain d ds where v: "v = d # ds" by (cases v) auto
  with Cons.prems have "(c = CHR ''-'') = (d = CHR ''-'')"
    and m: "map (\<lambda>c. c = CHR ''-'') cs = map (\<lambda>c. c = CHR ''-'') ds"
    by simp_all
  with Cons.prems(2) v have "c = d" and "removeHyphens cs = removeHyphens ds"
    by (auto simp: removeHyphens_def split: if_splits)
  with Cons.IH [OF m] v show ?case by simp
qed

text \<open>
  C2. For a request without stream and without file (in particular with no option set):
  on open the session sends the run-task command, whose task id is the UUID generated for
  this call with the hyphens removed; that id has no hyphen, and two calls whose UUIDs
  differ send different ids, so that the id is as fresh as the UUID. On a task-started
  event the session then sends a continue-task command carrying the request text and a
  finish-task command with empty input, both with the same id; the promise is still
  pending while binary chunks arrive, and a task-finished event after them resolves it to
  the concatenation of the chunks in arrival order. The events are control frames the
  handler takes in: their event and task id can be written into its log line.
\<close>

theorem buffer_mode_scenario:
  assumes "\<not> streamFlag options" and "\<not> opensFile options"
    and "eventOf numberToString started = Some (JStr ''task-started'')"
    and "eventOf numberToString finished = Some (JStr ''task-finished'')"
  shows "ws (synthesize numberToString text uuid options [Open]) =
           [Send (runTaskCmd (removeHyphens uuid) options)]
       \<and> jsonPath (runTaskCmd (removeHyphens uuid) options) [''header'', ''action'']
           = Some (JStr ''run-task'')
       \<and> jsonPath (runTaskCmd (removeHyphens uuid) options) [''header'', ''task_id'']
           = Some (JStr (removeHyphens uuid))
       \<and> CHR ''-'' \<notin> set (removeHyphens uuid)
       \<and> (isUuid uuid \<and> isUuid uuid' \<and> uuid \<noteq> uuid' \<longrightarrow>
            removeHyphens uuid \<noteq> removeHyphens uuid')
       \<and> ws (synthesize numberToString text uuid options [Open, Message (Text started)]) =
           [Send (runTaskCmd (removeHyphens uuid) options),
            Send (continueTaskCmd (removeHyphens uuid) text),
            Send (finishTaskCmd (removeHyphens uuid))]
       \<and> jsonPath (continueTaskCmd (removeHyphens uuid) text) [''header'', ''action'']
           = Some (JStr ''continue-task'')
       \<and> jsonPath (continueTaskCmd (removeHyphens uuid) text) [''header'', ''task_id'']
           = Some (JStr (removeHyphens uuid))
       \<and> jsonPath (continueTaskCmd (removeHyphens uuid) text) [''payload'', ''input'', ''text'']
           = Some (JStr text)
       \<and> jsonPath (finishTaskCmd (removeHyphens uuid)) [''header'', ''action'']
           = Some (JStr ''finish-task'')
       \<and> jsonPath (finishTaskCmd (removeHyphens uuid)) [''header'', ''task_id'']
           = Some (JStr (removeHyphens uuid))
       \<and> jsonPath (finishTaskCmd (removeHyphens uuid)) [''payload'', ''input'']
           = Some (JObj [])
       \<and> promise (synthesize numberToString text uuid options
            (Open # Message (Text started) # map (\<lambda>b. Message (Binary b)) chunks)) = Pending
       \<and> promise (synthesize numberToString text uuid options
            (Open # Message (Text started) # map (\<lambda>b. Message (Binary b)) chunks
               @ [Message (Text finished)])) = Resolved (ResBuffer (concat chunks))"
proof -
  let ?es = "Open # Message (Text started) # map (\<lambda>b. Message (Binary b)) chunks"
  have nt: "filter (terminal numberToString) ?es = []"
    using assms(3) by (auto simp: nonterminal_binary frame_defs split: option.splits)
  have bp: "binaryPayloads ?es = chunks"
    by (simp add: binaryPayloads_map)
  have sends1: "ws (synthesize numberToString text uuid options [Open]) =
           [Send (runTaskCmd (removeHyphens uuid) options)]"
    by (simp add: synthesize_def ws_onOpen ws_start)
  have sends2: "ws (synthesize numberToString text uuid options [Open, Message (Text started)]) =
           [Send (runTaskCmd (removeHyphens uuid) options),
            Send (continueTaskCmd (removeHyphens uuid) text),
            Send (finishTaskCmd (removeHyphens uuid))]"
    by (simp add: synthesize_def ws_onText_started [OF assms(3)] ws_onOpen ws_start)
  have cmds: "jsonPath (runTaskCmd (removeHyphens uuid) options) [''header'', ''action'']
           = Some (JStr ''run-task'')"
    "jsonPath (runTaskCmd (removeHyphens uuid) options) [''header'', ''task_id'']
           = Some (JStr (removeHyphens uuid))"
    "jsonPath (continueTaskCmd (removeHyphens uuid) text) [''header'', ''action'']
           = Some (JStr ''continue-task'')"
    "jsonPath (continueTaskCmd (removeHyphens uuid) text) [''header'', ''task_id'']
           = Some (JStr (removeHyphens uuid))"
    "jsonPath (finishTaskCmd (removeHyphens uuid)) [''header'', ''task_id'']
           = Some (JStr (removeHyphens uuid))"
    "jsonPath (continueTaskCmd (removeHyphens uuid) text) [''payload'', ''input'', ''text'']
           = Some (JStr text)"
    "jsonPath (finishTaskCmd (removeHyphens uuid)) [''header'', ''action'']
           = Some (JStr ''finish-task'')"
    "jsonPath (finishTaskCmd (removeHyphens uuid)) [''payload'', ''input'']
           = Some (JObj [])"
    by (simp_all add: runTaskCmd_def continueTaskCmd_def finishTaskCmd_def cmdHeader_def)
  have pend: "promise (synthesize numberToString text uuid options ?es) = Pending"
    using promise_pending_buffer_mode [OF assms(1) nt] .
  have res: "promise (synthesize numberToString text uuid options (?es @ [Message (Text finished)])) =
          Resolved (ResBuffer (concat chunks))"
    using buffer_mode_resolves [OF assms(1,2) nt assms(4), of "text" uuid] by (simp only: bp)
  have fresh: "removeHyphens uuid \<noteq> removeHyphens uuid'"
    if "isUuid uuid" "isUuid uuid'" "uuid \<noteq> uuid'"
    using that removeHyphens_inject [of uuid uuid'] by (auto simp: isUuid_def)
  from sends1 sends2 cmds pend res fresh hyphens_removed [of uuid] show ?thesis by simp
qed

theorem buffer_mode_scenario_witness:
  "\<not> streamFlag defaultOptions \<and> \<not> opensFile defaultOptions
   \<and> eventOf noNumberText (controlMsg ''task-started'' []) = Some (JStr ''task-started'')
   \<and> eventOf noNumberText (controlMsg ''task-finished'' []) = Some (JStr ''task-finished'')
   \<and> isUuid ''123e4567-e89b-42d3-a456-426614174000''
   \<and> isUuid ''123e4567-e89b-42d3-a456-426614174001''
   \<and> removeHyphens ''123e4567-e89b-42d3-a456-426614174000''
       \<noteq> removeHyphens ''123e4567-e89b-42d3-a456-426614174001''
   \<and> ws (synthesize noNumberText ''hello'' ''123e4567-e89b-42d3-a456-426614174000''
         defaultOptions [Open, controlFrame ''task-started'' []])
       = [Send (runTaskCmd ''123e4567e89b42d3a456426614174000'' defaultOptions),
          Send (continueTaskCmd ''123e4567e89b42d3a456426614174000'' ''hello''),
          Send (finishTaskCmd ''123e4567e89b42d3a456426614174000'')]
   \<and> promise (synthesize noNumberText ''hello'' ''123e4567-e89b-42d3-a456-426614174000''
         defaultOptions
        [Open, controlFrame ''task-started'' [], Message (Binary [0x41, 0x41]),
         Message (Binary [0x42, 0x42]), controlFrame ''task-finished'' []])
      = Resolved (ResBuffer [0x41, 0x41, 0x42, 0x42])"
proof -
  have h: "\<not> streamFlag defaultOptions" "\<not> opensFile defaultOptions"
    "eventOf noNumberText (controlMsg ''task-started'' []) = Some (JStr ''task-started'')"
    "eventOf noNumberText (controlMsg ''task-finished'' []) = Some (JStr ''task-finished'')"
    by (simp_all add: streamFlag_def opensFile_def defaultOptions_def eventOf_def received_def
          printable_def headerOf_def controlMsg_def)
  have u: "isUuid ''123e4567-e89b-42d3-a456-426614174000''"
    "isUuid ''123e4567-e89b-42d3-a456-426614174001''"
    "''123e4567-e89b-42d3-a456-426614174000'' \<noteq> ''123e4567-e89b-42d3-a456-426614174001''"
    by (simp_all add: isUuid_def uuidShape_def eval_nat_numeral)
  have r: "removeHyphens ''123e4567-e89b-42d3-a456-426614174000'' =
           ''123e4567e89b42d3a456426614174000''"
    by (simp add: removeHyphens_def)
  note t = buffer_mode_scenario [OF h, of "''hello''" "''123e4567-e89b-42d3-a456-426614174000''"
      "''123e4567-e89b-42d3-a456-426614174001''" "[[0x41, 0x41], [0x42, 0x42]]"]
  have d: "removeHyphens ''123e4567-e89b-42d3-a456-426614174000''
       \<noteq> removeHyphens ''123e4567-e89b-42d3-a456-426614174001''"
    using t u by blast
  have w: "ws (synthesize noNumberText ''hello'' ''123e4567-e89b-42d3-a456-426614174000''
         defaultOptions [Open, controlFrame ''task-started'' []])
       = [Send (runTaskCmd ''123e4567e89b42d3a456426614174000'' defaultOptions),
          Send (continueTaskCmd ''123e4567e89b42d3a456426614174000'' ''hello''),
          Send (finishTaskCmd ''123e4567e89b42d3a456426614174000'')]"
    using t by (simp only: r controlFrame_def)
  have p: "promise (synthesize noNumberText ''hello'' ''123e4567-e89b-42d3-a456-426614174000''
         defaultOptions
        [Open, controlFrame ''task-started'' [], Message (Binary [0x41, 0x41]),
         Message (Binary [0x42, 0x42]), controlFrame ''task-finished'' []])
      = Resolved (ResBuffer [0x41, 0x41, 0x42, 0x42])"
    using t by (simp add: controlFrame_def)
  from h u(1,2) d w p show ?thesis by blast
qed

section \<open>File output without a path\<close>

lemma opensFile_no_output:
  assumes "output options = None \<or> output options = Some []"
  shows "\<not> opensFile options"
  using assms by (auto simp: opensFile_def)

text \<open>
  C10. When \<open>output\<close> is absent or empty, no file is opened whatever \<open>outputType\<close> says, and
  the session is the one of the same request without \<open>outputType\<close>: in stream mode the
  promise is resolved with the live stream; otherwise a task-finished event that is the
  first terminal event resolves it with the concatenation of the chunks received, not with
  an empty buffer. The task-finished event is a control frame the handler takes in: its
  event and task id can be written into the log line.
\<close>

theorem file_without_path_falls_back:
  assumes "output options = None \<or> output options = Some []"
  shows "fileStream (synthesize numberToString text uuid options events) = None
       \<and> synthesize numberToString text uuid options events =
           synthesize numberToString text uuid (options\<lparr>outputType := None\<rparr>) events
       \<and> (streamFlag options \<longrightarrow>
            promise (synthesize numberToString text uuid options events) = Resolved ResOutputStream)
       \<and> (\<not> streamFlag options \<and> filter (terminal numberToString) events = []
            \<and> eventOf numberToString finished = Some (JStr ''task-finished'') \<longrightarrow>
            promise (synthesize numberToString text uuid options (events @ [Message (Text finished)])) =
              Resolved (ResBuffer (concat (binaryPayloads events))))"
proof -
  note nf = opensFile_no_output [OF assms]
  have a: "fileStream (synthesize numberToString text uuid options events) = None"
    using nf by (simp add: fileStream_synthesize)
  have b: "synthesize numberToString text uuid options events =
           synthesize numberToString text uuid (options\<lparr>outputType := None\<rparr>) events"
  proof (rule synthesize_options_cong)
    show "opensFile options = opensFile (options\<lparr>outputType := None\<rparr>)"
      using nf by (simp add: opensFile_def)
  qed (simp_all add: runTaskCmd_outputType streamFlag_def)
  have c: "promise (synthesize numberToString text uuid options events) = Resolved ResOutputStream"
    if "streamFlag options"
    using that nf by (simp add: synthesize_def promise_deliver_settled promise_start)
  have d: "promise (synthesize numberToString text uuid options (events @ [Message (Text finished)])) =
              Resolved (ResBuffer (concat (binaryPayloads events)))"
    if "\<not> streamFlag options" "filter (terminal numberToString) events = []"
      "eventOf numberToString finished = Some (JStr ''task-finished'')"
    using buffer_mode_resolves [OF that(1) nf that(2,3)] .
  from a b c d show ?thesis by blast
qed

theorem file_without_path_falls_back_witness:
  "(output (defaultOptions\<lparr>outputType := Some ''file''\<rparr>) = None
      \<or> output (defaultOptions\<lparr>outputType := Some ''file''\<rparr>) = Some [])
   \<and> fileStream (synthesize noNumberText ''hello'' ''12-34'' (defaultOptions\<lparr>outputType := Some ''file''\<rparr>)
        [Open, controlFrame ''task-started'' [], Message (Binary [0x41, 0x41]),
         Message (Binary [0x42, 0x42]), controlFrame ''task-finished'' []]) = None
   \<and> promise (synthesize noNumberText ''hello'' ''12-34'' (defaultOptions\<lparr>outputType := Some ''file''\<rparr>)
        ([Open, controlFrame ''task-started'' [], Message (Binary [0x41, 0x41]),
          Message (Binary [0x42, 0x42])] @ [controlFrame ''task-finished'' []]))
      = Resolved (ResBuffer [0x41, 0x41, 0x42, 0x42])
   \<and> promise (synthesize noNumberText ''hello'' ''12-34''
        (defaultOptions\<lparr>outputType := Some ''file'', stream := Some True\<rparr>) [Open])
      = Resolved ResOutputStream"
proof -
  let ?o = "defaultOptions\<lparr>outputType := Some ''file''\<rparr>"
  let ?es = "[Open, controlFrame ''task-started'' [], Message (Binary [0x41, 0x41]),
          Message (Binary [0x42, 0x42])]"
  have h: "output ?o = None \<or> output ?o = Some []"
    by (simp add: defaultOptions_def)
  have h2: "output (?o\<lparr>stream := Some True\<rparr>) = None \<or> output (?o\<lparr>stream := Some True\<rparr>) = Some []"
    by (simp add: defaultOptions_def)
  have e: "\<not> streamFlag ?o" "filter (terminal noNumberText) ?es = []"
    "eventOf noNumberText (controlMsg ''task-finished'' []) = Some (JStr ''task-finished'')"
    "binaryPayloads ?es = [[0x41, 0x41], [0x42, 0x42]]"
    "streamFlag (?o\<lparr>stream := Some True\<rparr>)"
    by (simp_all add: streamFlag_def defaultOptions_def eventOf_def failureOf_def received_def
          printable_def headerOf_def controlMsg_def controlFrame_def)
  note t1 = file_without_path_falls_back [OF h, of noNumberText "''hello''" "''12-34''" ?es
      "controlMsg ''task-finished'' []"]
  note t2 = file_without_path_falls_back [OF h, of noNumberText "''hello''" "''12-34''"
      "?es @ [controlFrame ''task-finished'' []]" None]
  note t3 = file_without_path_falls_back [OF h2, of noNumberText "''hello''" "''12-34''" "[Open]" None]
  have "promise (synthesize noNumberText ''hello'' ''12-34'' ?o
          (?es @ [Message (Text (controlMsg ''task-finished'' []))])) =
        Resolved (ResBuffer (concat (binaryPayloads ?es)))"
    using t1 e(1,2,3) by blast
  then have p: "promise (synthesize noNumberText ''hello'' ''12-34'' ?o
          (?es @ [controlFrame ''task-finished'' []])) =
        Resolved (ResBuffer [0x41, 0x41, 0x42, 0x42])"
    by (simp only: e(4) controlFrame_def) simp
  have f: "fileStream (synthesize noNumberText ''hello'' ''12-34'' ?o
          (?es @ [controlFrame ''task-finished'' []])) = None"
    using t2 by blast
  have q: "promise (synthesize noNumberText ''hello'' ''12-34'' (?o\<lparr>stream := Some True\<rparr>) [Open]) =
        Resolved ResOutputStream"
    using t3 e(5) by blast
  from h p f q show ?thesis by simp
qed

section \<open>How often a session finalizes\<close>

text \<open>Stream mode: the stream flag is set and no file was opened.\<close>

lemma stream_mode_handle:
  assumes "streamFlag options" and "fileStream s = None"
  shows "outputStream (handle numberToString text taskId options s e) = outputStream s @ streamCalls numberToString e
       \<and> promise (handle numberToString text taskId options s e) = promise s"
proof (cases e)
  case Open
  then show ?thesis by (simp add: handler_defs effect_defs Let_def)
next
  case (Message f)
  with assms show ?thesis
    by (cases f)
      (auto simp: onText_cases frame_defs handler_defs effect_defs Let_def split: option.splits)
next
  case (WsError err)
  with assms show ?thesis by (simp add: handler_defs effect_defs Let_def)
qed

lemma stream_mode_deliver:
  assumes "streamFlag options" and "fileStream s = None"
  shows "outputStream (deliver numberToString text taskId options s es) =
           outputStream s @ concat (map (streamCalls numberToString) es)
       \<and> promise (deliver numberToString text taskId options s es) = promise s"
  using assms(2)
proof (induction es arbitrary: s)
  case Nil
  then show ?case by simp
next
  case (Cons e es)
  have "fileStream (handle numberToString text taskId options s e) = None"
    using Cons.prems by (simp only: fileStream_handle)
  from Cons.IH [OF this] stream_mode_handle [OF assms(1) Cons.prems, of numberToString "text" taskId e]
  show ?case by simp
qed

lemma stream_mode_synthesize:
  assumes "streamFlag options" and "\<not> opensFile options"
  shows "outputStream (synthesize numberToString text uuid options es) = concat (map (streamCalls numberToString) es)"
    and "promise (synthesize numberToString text uuid options es) = Resolved ResOutputStream"
proof -
  have f: "fileStream (start options) = None"
    using assms(2) by (simp add: fileStream_start)
  have o: "outputStream (start options) = []"
    by (simp add: start_def effect_defs Let_def)
  from stream_mode_deliver [OF assms(1) f, of numberToString "text" "removeHyphens uuid" es]
  show "outputStream (synthesize numberToString text uuid options es) = concat (map (streamCalls numberToString) es)"
    and "promise (synthesize numberToString text uuid options es) = Resolved ResOutputStream"
    using assms by (simp_all add: synthesize_def o promise_start)
qed

lemma streamOutcome_streamCalls:
  "length (concat (map streamOutcome (streamCalls numberToString e))) = (if terminal numberToString e then 1 else 0)"
proof (cases e)
  case (Message f)
  then show ?thesis
    by (cases f) (auto simp: eventOf_def split: option.splits)
qed simp_all

lemma streamOutcome_trace:
  "length (concat (map streamOutcome (concat (map (streamCalls numberToString) es)))) =
     length (filter (terminal numberToString) es)"
proof (induction es)
  case Nil
  then show ?case by simp
next
  case (Cons e es)
  have "length (concat (map streamOutcome (concat (map (streamCalls numberToString) (e # es))))) =
        length (concat (map streamOutcome (streamCalls numberToString e))) +
        length (concat (map streamOutcome (concat (map (streamCalls numberToString) es))))"
    by simp
  then show ?case by (simp only: Cons.IH streamOutcome_streamCalls) simp
qed

text \<open>The other modes: a file was opened, or the stream flag is not set.\<close>

lemma sink_mode_handle:
  assumes "fileStream s \<noteq> None \<or> \<not> streamFlag options"
  shows "outputStream (handle numberToString text taskId options s e) = outputStream s
       \<and> (promise (handle numberToString text taskId options s e) = Pending) =
           (promise s = Pending \<and> \<not> terminal numberToString e)"
proof (cases e)
  case Open
  then show ?thesis by (simp add: handler_defs effect_defs Let_def)
next
  case (Message f)
  show ?thesis
  proof (cases f)
    case (Binary b)
    with Message assms show ?thesis
      by (auto simp: handler_defs effect_defs split: option.splits)
  next
    case (Text parsed)
    with Message assms show ?thesis
      by (cases "promise s")
        (auto simp: onText_cases frame_defs handler_defs effect_defs Let_def
           split: option.splits)
  qed
next
  case (WsError err)
  with assms show ?thesis
    by (cases "promise s") (auto simp: handler_defs effect_defs Let_def split: option.splits)
qed

lemma sink_mode_deliver:
  assumes "fileStream s \<noteq> None \<or> \<not> streamFlag options"
  shows "outputStream (deliver numberToString text taskId options s es) = outputStream s
       \<and> (promise (deliver numberToString text taskId options s es) = Pending) =
           (promise s = Pending \<and> filter (terminal numberToString) es = [])"
  using assms
proof (induction es arbitrary: s)
  case Nil
  then show ?case by simp
next
  case (Cons e es)
  have "fileStream (handle numberToString text taskId options s e) \<noteq> None \<or> \<not> streamFlag options"
    using Cons.prems by (simp only: fileStream_handle)
  from Cons.IH [OF this] sink_mode_handle [OF Cons.prems, of numberToString "text" taskId e]
  show ?case by auto
qed

lemma promise_never_stream_handle:
  assumes "promise s \<noteq> Resolved ResOutputStream"
  shows "promise (handle numberToString text taskId options s e) \<noteq> Resolved ResOutputStream"
proof (cases e)
  case Open
  with assms show ?thesis by (simp add: handler_defs effect_defs Let_def)
next
  case (Message f)
  with assms show ?thesis
    by (cases f; cases "promise s")
      (auto simp: onText_cases frame_defs handler_defs effect_defs Let_def split: option.splits)
next
  case (WsError err)
  with assms show ?thesis
    by (cases "promise s") (auto simp: handler_defs effect_defs Let_def split: option.splits)
qed

lemma promise_never_stream_deliver:
  "promise s \<noteq> Resolved ResOutputStream \<Longrightarrow>
   promise (deliver numberToString text taskId options s es) \<noteq> Resolved ResOutputStream"
  by (induction es arbitrary: s) (simp_all add: promise_never_stream_handle del: handle.simps)

lemma outcomes_sink_mode:
  assumes "outputStream s = []" and "promise s \<noteq> Resolved ResOutputStream"
  shows "length (outcomes s) = (if promise s = Pending then 0 else 1)"
proof (cases "promise s")
  case (Resolved r)
  with assms show ?thesis
    by (cases r) (simp_all add: outcomes_def promiseOutcomes_def)
qed (simp_all add: assms outcomes_def promiseOutcomes_def)

lemma outcomes_count:
  "length (outcomes (synthesize numberToString text uuid options events)) =
     (if streamFlag options \<and> \<not> opensFile options then length (filter (terminal numberToString) events)
      else min 1 (length (filter (terminal numberToString) events)))"
proof (cases "streamFlag options \<and> \<not> opensFile options")
  case True
  then have "outcomes (synthesize numberToString text uuid options events) =
             concat (map streamOutcome (concat (map (streamCalls numberToString) events)))"
    by (simp add: outcomes_def promiseOutcomes_def stream_mode_synthesize)
  with True show ?thesis by (simp add: streamOutcome_trace)
next
  case False
  let ?s = "synthesize numberToString text uuid options events"
  from False have m: "fileStream (start options) \<noteq> None \<or> \<not> streamFlag options"
    by (auto simp: fileStream_start)
  have p0: "promise (start options) = Pending"
    using False by (simp add: promise_start)
  have o0: "outputStream (start options) = []"
    by (simp add: start_def effect_defs Let_def)
  from sink_mode_deliver [OF m, of numberToString "text" "removeHyphens uuid" events]
  have o: "outputStream ?s = []"
    and p: "(promise ?s = Pending) = (filter (terminal numberToString) events = [])"
    by (simp_all add: synthesize_def o0 p0)
  have n: "promise ?s \<noteq> Resolved ResOutputStream"
    unfolding synthesize_def by (rule promise_never_stream_deliver) (simp add: p0)
  have "length (outcomes ?s) = (if filter (terminal numberToString) events = [] then 0 else 1)"
    using outcomes_sink_mode [OF o n] p by simp
  also have "\<dots> = min 1 (length (filter (terminal numberToString) events))"
    by (cases "filter (terminal numberToString) events") simp_all
  finally show ?thesis using False by auto
qed

text \<open>
  C1, as the code has it. The finalization outcomes of a session are counted on its
  promise (resolved with a buffer, resolved with the empty buffer of file mode, rejected)
  and on its live stream (each end, each error emitted). In buffer mode and in file mode
  there is one outcome as soon as one terminal event has been handled and none before,
  however many terminal events follow: a settled promise is never changed by later events.
  The terminal events are: a task-finished event the handler takes in, a task-failed event
  the handler takes in whose error code and message can be written into the log line, and
  a transport error. In stream mode every terminal event fires an
  outcome of its own, so there are as many outcomes as terminal events.
\<close>

theorem finalization_count:
  "length (outcomes (synthesize numberToString text uuid options events)) =
     (if streamFlag options \<and> \<not> opensFile options then length (filter (terminal numberToString) events)
      else min 1 (length (filter (terminal numberToString) events)))
   \<and> (promise (synthesize numberToString text uuid options before) \<noteq> Pending \<longrightarrow>
        promise (synthesize numberToString text uuid options (before @ after)) =
          promise (synthesize numberToString text uuid options before))"
proof -
  have "promise (synthesize numberToString text uuid options (before @ after)) =
          promise (synthesize numberToString text uuid options before)"
    if "promise (synthesize numberToString text uuid options before) \<noteq> Pending"
    using that promise_deliver_settled [of "synthesize numberToString text uuid options before"]
    by (simp add: synthesize_def deliver_append)
  then show ?thesis by (simp only: outcomes_count) simp
qed

theorem finalization_count_witness:
  "promise (synthesize noNumberText ''hi'' ''id'' defaultOptions
      [Open, Message (Binary [0x41]), controlFrame ''task-finished'' []]) \<noteq> Pending
   \<and> promise (synthesize noNumberText ''hi'' ''id'' defaultOptions
      ([Open, Message (Binary [0x41]), controlFrame ''task-finished'' []]
        @ [controlFrame ''task-failed'' [], WsError (Error ''closed'')]))
     = Resolved (ResBuffer [0x41])
   \<and> outcomes (synthesize noNumberText ''hi'' ''id'' defaultOptions
      ([Open, Message (Binary [0x41]), controlFrame ''task-finished'' []]
        @ [controlFrame ''task-failed'' [], WsError (Error ''closed'')]))
     = [ResolvedWithBuffer]
   \<and> length (outcomes (synthesize noNumberText ''hi'' ''id'' defaultOptions
      [Open, Message (Text
         (controlMsg ''task-finished'' [(''task_id'', JObj [(''toString'', JNull)])]))]))
     = 0"
proof -
  let ?b = "[Open, Message (Binary [0x41]), controlFrame ''task-finished'' []]"
  let ?a = "[controlFrame ''task-failed'' [], WsError (Error ''closed'')]"
  have p: "promise (synthesize noNumberText ''hi'' ''id'' defaultOptions ?b) = Resolved (ResBuffer [0x41])"
    by (simp add: run_defs)
  have "promise (synthesize noNumberText ''hi'' ''id'' defaultOptions (?b @ ?a)) =
        promise (synthesize noNumberText ''hi'' ''id'' defaultOptions ?b)"
    using finalization_count [of noNumberText "''hi''" "''id''" defaultOptions "[]" ?b ?a] p by simp
  with p have q: "promise (synthesize noNumberText ''hi'' ''id'' defaultOptions (?b @ ?a)) =
        Resolved (ResBuffer [0x41])"
    by simp
  have o: "outcomes (synthesize noNumberText ''hi'' ''id'' defaultOptions (?b @ ?a)) = [ResolvedWithBuffer]"
    by (simp add: run_defs jsOr_def outcomes_def promiseOutcomes_def)
  have z: "length (outcomes (synthesize noNumberText ''hi'' ''id'' defaultOptions
      [Open, Message (Text
         (controlMsg ''task-finished'' [(''task_id'', JObj [(''toString'', JNull)])]))]))
     = 0"
    using finalization_count [of noNumberText "''hi''" "''id''" defaultOptions
        "[Open, Message (Text
           (controlMsg ''task-finished'' [(''task_id'', JObj [(''toString'', JNull)])]))]"]
    by (simp add: frame_eval streamFlag_def opensFile_def defaultOptions_def)
  from p q o z show ?thesis by simp
qed

theorem finalization_count_counterexample:
  "outcomes (synthesize noNumberText ''hi'' ''id'' defaultOptions
      [Open, controlFrame ''task-started'' [], Message (Binary [0x41])]) = []
   \<and> outcomes (synthesize noNumberText ''hi'' ''id'' (defaultOptions\<lparr>stream := Some True\<rparr>)
      [Open, controlFrame ''task-finished'' [], controlFrame ''task-failed'' []])
     = [StreamEnd, StreamError]
   \<and> outcomes (synthesize noNumberText ''hi'' ''id'' (defaultOptions\<lparr>stream := Some True\<rparr>)
      [Open, WsError (Error ''closed''), controlFrame ''task-failed'' []])
     = [StreamError, StreamError]"
  by (simp add: run_defs jsOr_def outcomes_def promiseOutcomes_def)

section \<open>Stream mode\<close>

text \<open>
  C3, as the code has it. In stream mode (stream set, no file opened) the promise is
  resolved with the live stream inside the call of \<open>synthesize\<close> itself: it is already
  resolved when no transport event has been delivered and nothing has been sent, and it
  stays so. Every later event shows on that stream in arrival order: a binary frame is
  written to it, a task-finished event the handler takes in ends it, a task-failed event
  whose log line can be written and a transport error emit an error on it.
\<close>

theorem stream_resolved_at_call:
  assumes "streamFlag options" and "\<not> opensFile options"
  shows "promise (synthesize numberToString text uuid options []) = Resolved ResOutputStream
       \<and> ws (synthesize numberToString text uuid options []) = []
       \<and> promise (synthesize numberToString text uuid options events) = Resolved ResOutputStream
       \<and> outputStream (synthesize numberToString text uuid options events) = concat (map (streamCalls numberToString) events)
       \<and> written (outputStream (synthesize numberToString text uuid options events)) = binaryPayloads events"
proof -
  have w: "written (outputStream (synthesize numberToString text uuid options events)) = binaryPayloads events"
  proof -
    have "fileStream (synthesize numberToString text uuid options events) = None"
      using assms(2) by (simp add: fileStream_synthesize)
    then have "sinkChunks options (synthesize numberToString text uuid options events) =
               written (outputStream (synthesize numberToString text uuid options events))"
      using assms(1) by (simp add: sinkChunks_def)
    then show ?thesis
      by (simp add: synthesize_def sinkChunks_deliver sinkChunks_start)
  qed
  have "ws (synthesize numberToString text uuid options []) = []"
    by (simp add: synthesize_def ws_start)
  with w stream_mode_synthesize [OF assms] show ?thesis by simp
qed

theorem stream_resolved_at_call_witness:
  "streamFlag (defaultOptions\<lparr>stream := Some True\<rparr>)
   \<and> \<not> opensFile (defaultOptions\<lparr>stream := Some True\<rparr>)
   \<and> promise (synthesize noNumberText ''hi'' ''id'' (defaultOptions\<lparr>stream := Some True\<rparr>)
        [Open, controlFrame ''task-started'' [], Message (Binary [0x41, 0x41])])
      = Resolved ResOutputStream
   \<and> outputStream (synthesize noNumberText ''hi'' ''id'' (defaultOptions\<lparr>stream := Some True\<rparr>)
        [Open, controlFrame ''task-started'' [], Message (Binary [0x41, 0x41]),
         Message (Binary [0x42, 0x42]), controlFrame ''task-finished'' []])
      = [Write [0x41, 0x41], Write [0x42, 0x42], End]"
proof -
  let ?o = "defaultOptions\<lparr>stream := Some True\<rparr>"
  have h: "streamFlag ?o" "\<not> opensFile ?o"
    by (simp_all add: streamFlag_def opensFile_def defaultOptions_def)
  have c: "concat (map (streamCalls noNumberText)
        [Open, controlFrame ''task-started'' [], Message (Binary [0x41, 0x41]),
         Message (Binary [0x42, 0x42]), controlFrame ''task-finished'' []]) =
        [Write [0x41, 0x41], Write [0x42, 0x42], End]"
    by (simp add: frame_eval)
  from stream_resolved_at_call [OF h, of noNumberText "''hi''" "''id''"
      "[Open, controlFrame ''task-started'' [], Message (Binary [0x41, 0x41])]"]
    stream_resolved_at_call [OF h, of noNumberText "''hi''" "''id''"
      "[Open, controlFrame ''task-started'' [], Message (Binary [0x41, 0x41]),
         Message (Binary [0x42, 0x42]), controlFrame ''task-finished'' []]"]
  show ?thesis using h by (simp only: c) simp
qed

theorem stream_resolved_at_call_counterexample:
  "promise (synthesize noNumberText ''hi'' ''id'' (defaultOptions\<lparr>stream := Some True\<rparr>) [])
     = Resolved ResOutputStream
   \<and> ws (synthesize noNumberText ''hi'' ''id'' (defaultOptions\<lparr>stream := Some True\<rparr>) []) = []"
  by (simp add: run_defs)

section \<open>Closing the transport and the file\<close>



section \<open>Remote task failure\<close>

lemma ws_onText_failed:
  assumes "received numberToString parsed = Some hdr"
    and "field hdr ''event'' = Some (JStr ''task-failed'')"
  shows "ws (onText numberToString text taskId options parsed s) = ws s @ [Close]"
  using assms by (auto simp: onText_cases effect_defs Let_def split: option.splits)

lemma failureOf_printed:
  assumes "received numberToString parsed = Some hdr"
    and "field hdr ''event'' = Some (JStr ''task-failed'')"
    and "toString numberToString (field hdr ''error_code'') = Inr code"
    and "toString numberToString
           (Some (jsOr (field hdr ''error_message'') ''CosyVoice task failed'')) = Inr message"
  shows "failureOf numberToString parsed = Some (Error message)"
  using assms by (simp add: failureOf_def printable_def textOf_def)

text \<open>
  C5, as the code has it. Take a task-failed event the handler takes in, whose error code
  and message can be written into the log line, in buffer mode. Handling it calls \<open>close\<close>
  on the web socket and calls \<^verbatim>\<open>reject\<close> with an error whose message is the string of
  \<^verbatim>\<open>error_message || 'CosyVoice task failed'\<close>: the promise is rejected with that error when
  no terminal event came before, and a promise that is already settled stays as it is.
  The message is the fallback when \<^verbatim>\<open>error_message\<close> is absent, \<^verbatim>\<open>null\<close>, \<^verbatim>\<open>false\<close>, 0 or
  the empty string; a non-empty string is taken as it is, and any other value is converted
  to a string.
\<close>

theorem task_failed_rejects:
  assumes "received numberToString parsed = Some hdr"
    and "field hdr ''event'' = Some (JStr ''task-failed'')"
    and "toString numberToString (field hdr ''error_code'') = Inr code"
    and "toString numberToString
           (Some (jsOr (field hdr ''error_message'') ''CosyVoice task failed'')) = Inr message"
    and "\<not> streamFlag options" and "\<not> opensFile options"
  shows "promise (synthesize numberToString text uuid options (events @ [Message (Text parsed)]))
           = reject (Error message) (promise (synthesize numberToString text uuid options events))
       \<and> (promise (synthesize numberToString text uuid options events) = Pending \<longrightarrow>
            promise (synthesize numberToString text uuid options
              (events @ [Message (Text parsed)])) = Rejected (Error message))
       \<and> (filter (terminal numberToString) events = [] \<longrightarrow>
            promise (synthesize numberToString text uuid options
              (events @ [Message (Text parsed)])) = Rejected (Error message))
       \<and> (promise (synthesize numberToString text uuid options events) \<noteq> Pending \<longrightarrow>
            promise (synthesize numberToString text uuid options
              (events @ [Message (Text parsed)]))
              = promise (synthesize numberToString text uuid options events))
       \<and> ws (synthesize numberToString text uuid options (events @ [Message (Text parsed)]))
           = ws (synthesize numberToString text uuid options events) @ [Close]
       \<and> (field hdr ''error_message'' = None \<longrightarrow> message = ''CosyVoice task failed'')
       \<and> (field hdr ''error_message'' = Some JNull \<longrightarrow> message = ''CosyVoice task failed'')
       \<and> (field hdr ''error_message'' = Some (JBool False) \<longrightarrow>
            message = ''CosyVoice task failed'')
       \<and> (field hdr ''error_message'' = Some (JNum 0) \<longrightarrow> message = ''CosyVoice task failed'')
       \<and> (field hdr ''error_message'' = Some (JStr []) \<longrightarrow> message = ''CosyVoice task failed'')
       \<and> (\<forall>m. field hdr ''error_message'' = Some (JStr m) \<and> m \<noteq> [] \<longrightarrow> message = m)
       \<and> (truthy (field hdr ''error_message'') \<longrightarrow>
            toString numberToString (field hdr ''error_message'') = Inr message)"
proof -
  let ?s = "synthesize numberToString text uuid options events"
  let ?t = "handle numberToString text (removeHyphens uuid) options ?s (Message (Text parsed))"
  have f: "fileStream ?s = None"
    using assms(6) by (simp add: fileStream_synthesize)
  have a: "promise ?t = reject (Error message) (promise ?s)"
    using failureOf_printed [OF assms(1,2,3,4)] f assms(5) by (rule buffer_mode_failed)
  have b: "promise ?t = Rejected (Error message)" if "filter (terminal numberToString) events = []"
    using a promise_pending_buffer_mode [OF assms(5) that, of "text" uuid] by simp
  have c: "promise ?t = promise ?s" if "promise ?s \<noteq> Pending"
    using a that by (simp add: reject_settled)
  have c': "promise ?t = Rejected (Error message)" if "promise ?s = Pending"
    using a that by simp
  have d: "ws ?t = ws ?s @ [Close]"
    using ws_onText_failed [OF assms(1,2)] by simp
  have m: "field hdr ''error_message'' = None \<longrightarrow> message = ''CosyVoice task failed''"
    "field hdr ''error_message'' = Some JNull \<longrightarrow> message = ''CosyVoice task failed''"
    "field hdr ''error_message'' = Some (JBool False) \<longrightarrow> message = ''CosyVoice task failed''"
    "field hdr ''error_message'' = Some (JNum 0) \<longrightarrow> message = ''CosyVoice task failed''"
    "field hdr ''error_message'' = Some (JStr []) \<longrightarrow> message = ''CosyVoice task failed''"
    "\<forall>m. field hdr ''error_message'' = Some (JStr m) \<and> m \<noteq> [] \<longrightarrow> message = m"
    using assms(4) by (auto simp: jsOr_def)
  have t: "truthy (field hdr ''error_message'') \<longrightarrow>
            toString numberToString (field hdr ''error_message'') = Inr message"
    using assms(4) by (auto simp: jsOr_def split: option.splits)
  from a b c c' d m t show ?thesis unfolding synthesize_snoc by blast
qed

theorem task_failed_rejects_witness:
  "received noNumberText
     (controlMsg ''task-failed'' [(''error_message'', JStr ''quota exceeded'')]) =
     Some (JObj [(''event'', JStr ''task-failed''), (''error_message'', JStr ''quota exceeded'')])
   \<and> promise (synthesize noNumberText ''hi'' ''id'' defaultOptions
        ([Open, controlFrame ''task-started'' []]
          @ [controlFrame ''task-failed'' [(''error_message'', JStr ''quota exceeded'')]]))
      = Rejected (Error ''quota exceeded'')
   \<and> ws (synthesize noNumberText ''hi'' ''id'' defaultOptions
        ([Open, controlFrame ''task-started'' []]
          @ [controlFrame ''task-failed'' [(''error_message'', JStr ''quota exceeded'')]]))
      = ws (synthesize noNumberText ''hi'' ''id'' defaultOptions
              [Open, controlFrame ''task-started'' []])
          @ [Close]"
proof -
  let ?hdr = "JObj [(''event'', JStr ''task-failed''), (''error_message'', JStr ''quota exceeded'')]"
  let ?p = "controlMsg ''task-failed'' [(''error_message'', JStr ''quota exceeded'')]"
  let ?es = "[Open, controlFrame ''task-started'' []]"
  have h: "received noNumberText ?p = Some ?hdr"
    "field ?hdr ''event'' = Some (JStr ''task-failed'')"
    "toString noNumberText (field ?hdr ''error_code'') = Inr ''undefined''"
    "toString noNumberText
       (Some (jsOr (field ?hdr ''error_message'') ''CosyVoice task failed'')) =
       Inr ''quota exceeded''"
    "\<not> streamFlag defaultOptions" "\<not> opensFile defaultOptions"
    by (simp_all add: frame_eval streamFlag_def opensFile_def defaultOptions_def)
  have n: "filter (terminal noNumberText) ?es = []"
    by (simp add: frame_eval)
  note t = task_failed_rejects [OF h, of "''hi''" "''id''" ?es]
  have p: "promise (synthesize noNumberText ''hi'' ''id'' defaultOptions
        (?es @ [Message (Text ?p)])) = Rejected (Error ''quota exceeded'')"
    using t n by blast
  have w: "ws (synthesize noNumberText ''hi'' ''id'' defaultOptions (?es @ [Message (Text ?p)]))
      = ws (synthesize noNumberText ''hi'' ''id'' defaultOptions ?es) @ [Close]"
    using t by blast
  from h(1) p w show ?thesis by (simp only: controlFrame_def)
qed

theorem task_failed_rejects_counterexample:
  "promise (synthesize noNumberText ''hi'' ''id'' defaultOptions
      [Open, controlFrame ''task-failed'' [(''error_message'', JStr [])]])
     = Rejected (Error ''CosyVoice task failed'')
   \<and> promise (synthesize noNumberText ''hi'' ''id'' defaultOptions
      [Open, controlFrame ''task-finished'' [],
       controlFrame ''task-failed'' [(''error_message'', JStr ''quota exceeded'')]])
     = Resolved (ResBuffer [])
   \<and> promise (synthesize noNumberText ''hi'' ''id'' defaultOptions
      [Open, controlFrame ''task-failed''
         [(''error_message'', JStr ''quota exceeded''),
          (''error_code'', JObj [(''toString'', JNum 1)])]])
     = Pending"
  by (simp add: run_defs jsOr_def)

end
